theory Spec2Isabelle
  imports Complex_Main
begin

section \<open>Numbers, vectors and constants\<close>

text \<open>
  The game canvas (\<^verbatim>\<open>GameCanvas\<close>, the forwardRef component with \<^verbatim>\<open>animate\<close>,
  \<^verbatim>\<open>handleExplosion\<close>, \<^verbatim>\<open>launchProjectile\<close> and the charge handlers) computes with
  JavaScript numbers. They are modelled as \<^typ>\<open>real\<close>: comparisons, sums and quotients
  are the exact ones, rounding of IEEE doubles is not represented.
\<close>

datatype vec3 = Vec3 (vx: real) (vy: real) (vz: real)

definition vsub :: "vec3 \<Rightarrow> vec3 \<Rightarrow> vec3" where
  "vsub a b = Vec3 (vx a - vx b) (vy a - vy b) (vz a - vz b)"

definition vadd :: "vec3 \<Rightarrow> vec3 \<Rightarrow> vec3" where
  "vadd a b = Vec3 (vx a + vx b) (vy a + vy b) (vz a + vz b)"

definition vscale :: "real \<Rightarrow> vec3 \<Rightarrow> vec3" where
  "vscale k a = Vec3 (vx a * k) (vy a * k) (vz a * k)"

definition lengthSquared :: "vec3 \<Rightarrow> real" where
  "lengthSquared a = vx a * vx a + vy a * vy a + vz a * vz a"

definition vlength :: "vec3 \<Rightarrow> real" where
  "vlength a = sqrt (vx a * vx a + vy a * vy a + vz a * vz a)"

text \<open>
  \<^verbatim>\<open>Vec3.normalize()\<close> of the physics library scales the vector to length one in place
  and sets it to the zero vector when its length is not positive; \<^verbatim>\<open>Vec3.unit()\<close>
  returns the scaled vector, and \<open>(1, 0, 0)\<close> for the zero vector.
\<close>

definition normalize :: "vec3 \<Rightarrow> vec3" where
  "normalize a = (let n = vlength a in if n > 0 then vscale (1 / n) a else Vec3 0 0 0)"

definition unit :: "vec3 \<Rightarrow> vec3" where
  "unit a = (let n = vlength a in if n > 0 then vscale (1 / n) a else Vec3 1 0 0)"

text \<open>The constants of \<^verbatim>\<open>constants.ts\<close> that the canvas uses.\<close>

definition BLOCK_SIZE :: real where "BLOCK_SIZE = 1"
definition BLOCK_MASS :: real where "BLOCK_MASS = 0.5"
definition PROJECTILE_RADIUS :: real where "PROJECTILE_RADIUS = 0.25"
definition PROJECTILE_MASS :: real where "PROJECTILE_MASS = 10"
definition PROJECTILE_VELOCITY_MULTIPLIER :: real where "PROJECTILE_VELOCITY_MULTIPLIER = 25"
definition MAX_CHARGE_DURATION_MS :: real where "MAX_CHARGE_DURATION_MS = 1500"
definition MIN_LAUNCH_POWER :: real where "MIN_LAUNCH_POWER = 0.1"
definition MAX_LAUNCH_POWER :: real where "MAX_LAUNCH_POWER = 1.0"
definition HEAVY_PROJECTILE_RADIUS :: real where "HEAVY_PROJECTILE_RADIUS = 0.35"
definition HEAVY_PROJECTILE_MASS :: real where "HEAVY_PROJECTILE_MASS = 25"
definition EXPLOSIVE_PROJECTILE_RADIUS :: real where "EXPLOSIVE_PROJECTILE_RADIUS = 0.28"
definition EXPLOSIVE_PROJECTILE_MASS :: real where "EXPLOSIVE_PROJECTILE_MASS = 12"
definition EXPLOSION_RADIUS :: real where "EXPLOSION_RADIUS = 3.5"
definition EXPLOSION_STRENGTH :: real where "EXPLOSION_STRENGTH = 3.6"
definition EXPLOSIVE_PROJECTILE_LIFESPAN_MS :: real where "EXPLOSIVE_PROJECTILE_LIFESPAN_MS = 3000"
definition CLUSTER_PROJECTILE_RADIUS :: real where "CLUSTER_PROJECTILE_RADIUS = 0.3"
definition CLUSTER_PROJECTILE_MASS :: real where "CLUSTER_PROJECTILE_MASS = 15"
definition CLUSTER_SPLIT_DELAY_MS :: real where "CLUSTER_SPLIT_DELAY_MS = 1000"
definition SUBMUNITION_COUNT :: nat where "SUBMUNITION_COUNT = 5"
definition SUBMUNITION_RADIUS :: real where "SUBMUNITION_RADIUS = 0.15"
definition SUBMUNITION_MASS :: real where "SUBMUNITION_MASS = 2"
definition SUBMUNITION_SPREAD_IMPULSE :: real where "SUBMUNITION_SPREAD_IMPULSE = 3"
definition SUBMUNITION_LIFESPAN_MS :: real where "SUBMUNITION_LIFESPAN_MS = 5000"

section \<open>Charge and launch input\<close>

text \<open>
  JavaScript's \<^verbatim>\<open>a % b\<close> on numbers is the remainder of the division truncated towards
  zero (the result has the sign of \<open>a\<close>). The divisor here is always
  \<^verbatim>\<open>MAX_LAUNCH_POWER\<close>, which is not zero.
\<close>

definition trunc :: "real \<Rightarrow> int" where
  "trunc r = (if 0 \<le> r then \<lfloor>r\<rfloor> else \<lceil>r\<rceil>)"

definition js_rem :: "real \<Rightarrow> real \<Rightarrow> real" where
  "js_rem a b = a - b * of_int (trunc (a / b))"

text \<open>
  The arithmetic shared by \<^verbatim>\<open>chargeUpdateLoop\<close> (\<open>displayPower\<close>) and
  \<^verbatim>\<open>handlePointerUpGlobal\<close> (\<open>effectiveFinalPower\<close>), as a function of the elapsed
  time in milliseconds.
\<close>

definition displayPower :: "real \<Rightarrow> real" where
  "displayPower elapsedTime =
     (let rawPower = elapsedTime / MAX_CHARGE_DURATION_MS;
          p = js_rem rawPower MAX_LAUNCH_POWER
      in if p = 0 \<and> rawPower > 0 then MAX_LAUNCH_POWER else p)"

definition finalLaunchPower :: "real \<Rightarrow> real" where
  "finalLaunchPower elapsedTime = max MIN_LAUNCH_POWER (displayPower elapsedTime)"

text \<open>
  The refs the charge handlers read and write, and the callbacks they invoke
  (\<^verbatim>\<open>onChargeStart\<close>, \<^verbatim>\<open>onChargeProgress\<close>, \<^verbatim>\<open>onChargeComplete\<close>) as returned
  events. \<open>chargeLoopScheduled\<close> stands for \<^verbatim>\<open>chargeUpdateRafId.current\<close> being set.
\<close>

record charge_state =
  isChargingActive :: bool
  chargeStartTime :: real
  chargeLoopScheduled :: bool

datatype charge_event = ChargeStart | ChargeProgress real | ChargeComplete real

definition chargeUpdateLoop :: "real \<Rightarrow> charge_state \<Rightarrow> charge_state \<times> charge_event list" where
  "chargeUpdateLoop now cs =
     (if \<not> isChargingActive cs then (cs, [])
      else (cs\<lparr>chargeLoopScheduled := True\<rparr>,
            [ChargeProgress (displayPower (now - chargeStartTime cs))]))"

definition stopCharge :: "charge_state \<Rightarrow> charge_state" where
  "stopCharge cs = (if chargeLoopScheduled cs then cs\<lparr>chargeLoopScheduled := False\<rparr> else cs)"

text \<open>
  \<^verbatim>\<open>handlePointerDown\<close>: \<open>button\<close> is the pointer button, \<open>onCanvas\<close> the test that the
  event target is the canvas, the other flags are the refs of the same names.
\<close>

definition handlePointerDown ::
  "real \<Rightarrow> nat \<Rightarrow> bool \<Rightarrow> bool \<Rightarrow> bool \<Rightarrow> bool \<Rightarrow> charge_state \<Rightarrow> charge_state \<times> charge_event list" where
  "handlePointerDown now button canAttemptCharge isDraggingCamera isDelegateModeActive onCanvas cs =
     (if button \<noteq> 0 then (cs, [])
      else if \<not> canAttemptCharge \<or> isDraggingCamera \<or> isChargingActive cs \<or> isDelegateModeActive
        then (cs, [])
      else if onCanvas
        then (cs\<lparr>isChargingActive := True, chargeStartTime := now, chargeLoopScheduled := True\<rparr>,
              [ChargeStart])
      else (cs, []))"

definition handlePointerUpGlobal :: "real \<Rightarrow> charge_state \<Rightarrow> charge_state \<times> charge_event list" where
  "handlePointerUpGlobal now cs =
     (if \<not> isChargingActive cs then (cs, [])
      else ((stopCharge cs)\<lparr>isChargingActive := False\<rparr>,
            [ChargeComplete (finalLaunchPower (now - chargeStartTime cs))]))"

section \<open>Bodies, meshes and physics objects\<close>

text \<open>
  The rigid bodies belong to the physics library. A body is modelled by the fields the
  canvas reads or writes: position, velocity, orientation, sleep state, collision shapes
  and mass. \<open>shape_type\<close> gives the library's type number of a shape class;
  \<^verbatim>\<open>sphereShapeTypeNumber\<close> is set by \<^verbatim>\<open>init\<close> to the type number of a freshly
  built sphere.
\<close>

datatype quat = Quat (qx: real) (qy: real) (qz: real) (qw: real)

text \<open>\<^verbatim>\<open>Quaternion.vmult\<close> of the physics library: the vector rotated by the quaternion.\<close>

definition quat_vmult :: "quat \<Rightarrow> vec3 \<Rightarrow> vec3" where
  "quat_vmult q v =
     (let ix = qw q * vx v + qy q * vz v - qz q * vy v;
          iy = qw q * vy v + qz q * vx v - qx q * vz v;
          iz = qw q * vz v + qx q * vy v - qy q * vx v;
          iw = - qx q * vx v - qy q * vy v - qz q * vz v
      in Vec3 (ix * qw q + iw * - qx q + iy * - qz q - iz * - qy q)
              (iy * qw q + iw * - qy q + iz * - qx q - ix * - qz q)
              (iz * qw q + iw * - qz q + ix * - qy q - iy * - qx q))"

datatype sleep_state = AWAKE | SLEEPY | SLEEPING

datatype cannon_shape =
    CSphere real
  | CBox vec3
  | CCylinder real real real nat

fun shape_type :: "cannon_shape \<Rightarrow> nat" where
  "shape_type (CSphere r) = 1"
| "shape_type (CBox h) = 4"
| "shape_type (CCylinder rt rb h n) = 128"

definition sphereShapeTypeNumber :: nat where
  "sphereShapeTypeNumber = shape_type (CSphere 0.1)"

definition CYLINDER_SEGMENTS :: nat where "CYLINDER_SEGMENTS = 16"

record Body =
  position :: vec3
  velocity :: vec3
  quaternion :: quat
  sleepState :: sleep_state
  shapes :: "cannon_shape list"
  mass :: real
  linearDamping :: real

text \<open>
  \<^verbatim>\<open>Body.applyImpulse\<close>: a dynamic body (positive mass) gains \<open>impulse / mass\<close> of
  velocity. The angular velocity the library also changes is not part of the model.
  \<^verbatim>\<open>Body.wakeUp\<close> sets the sleep state to awake.
\<close>

definition applyImpulse :: "vec3 \<Rightarrow> Body \<Rightarrow> Body" where
  "applyImpulse impulse b =
     (if mass b > 0 then b\<lparr>velocity := vadd (velocity b) (vscale (1 / mass b) impulse)\<rparr> else b)"

definition wakeUp :: "Body \<Rightarrow> Body" where
  "wakeUp b = b\<lparr>sleepState := AWAKE\<rparr>"

record Mesh =
  mesh_position :: vec3
  mesh_quaternion :: quat

datatype ProjectileType = STANDARD | HEAVY | EXPLOSIVE | CLUSTER

fun ProjectileType_string :: "ProjectileType \<Rightarrow> string" where
  "ProjectileType_string STANDARD = ''STANDARD''"
| "ProjectileType_string HEAVY = ''HEAVY''"
| "ProjectileType_string EXPLOSIVE = ''EXPLOSIVE''"
| "ProjectileType_string CLUSTER = ''CLUSTER''"

text \<open>
  \<^verbatim>\<open>PhysicsObject\<close> of \<^verbatim>\<open>types.ts\<close>. Optional fields are options; \<open>mesh\<close> and
  \<open>body\<close> are options too because the canvas tests them before use. \<open>collideListening\<close>
  says that the object's \<^verbatim>\<open>onCollideHandler\<close> is registered on its body.
\<close>

record PhysicsObject =
  mesh :: "Mesh option"
  body :: "Body option"
  obj_id :: string
  isKing :: "bool option"
  initialY :: real
  isFallen :: bool
  projectileType :: "ProjectileType option"
  lifeSpan :: "real option"
  creationTime :: "real option"
  hasSplit :: "bool option"
  isSubmunition :: "bool option"
  collideListening :: bool

text \<open>JavaScript truthiness of an optional boolean and of an optional number.\<close>

definition truthy :: "bool option \<Rightarrow> bool" where
  "truthy v = (v = Some True)"

definition truthy_num :: "real option \<Rightarrow> bool" where
  "truthy_num v = (case v of None \<Rightarrow> False | Some r \<Rightarrow> r \<noteq> 0)"

datatype BlockShape = Cube | Cylinder | Sphere | Cube_2x1x1 | Cube_3x1x1

record BlockConfig =
  cfg_id :: string
  cfg_x :: real
  cfg_y :: real
  cfg_z :: real
  cfg_shape :: "BlockShape option"
  cfg_isKing :: "bool option"
  cfg_color :: "nat option"

record LevelConfiguration =
  levelName :: string
  "structure" :: "BlockConfig list"

definition createBlockVisualAndPhysics :: "BlockConfig \<Rightarrow> PhysicsObject" where
  "createBlockVisualAndPhysics blockConf =
     (let shapeType = (case cfg_shape blockConf of None \<Rightarrow> Cube | Some s \<Rightarrow> s);
          cannonShape =
            (case shapeType of
               Cylinder \<Rightarrow> CCylinder (BLOCK_SIZE / 2) (BLOCK_SIZE / 2) BLOCK_SIZE CYLINDER_SEGMENTS
             | Sphere \<Rightarrow> CSphere (BLOCK_SIZE / 2)
             | Cube_2x1x1 \<Rightarrow> CBox (Vec3 BLOCK_SIZE (BLOCK_SIZE / 2) (BLOCK_SIZE / 2))
             | Cube_3x1x1 \<Rightarrow> CBox (Vec3 (BLOCK_SIZE * 1.5) (BLOCK_SIZE / 2) (BLOCK_SIZE / 2))
             | Cube \<Rightarrow> CBox (Vec3 (BLOCK_SIZE / 2) (BLOCK_SIZE / 2) (BLOCK_SIZE / 2)));
          p = Vec3 (cfg_x blockConf) (cfg_y blockConf) (cfg_z blockConf)
      in \<lparr> mesh = Some \<lparr> mesh_position = p, mesh_quaternion = Quat 0 0 0 1 \<rparr>,
           body = Some \<lparr> position = p, velocity = Vec3 0 0 0, quaternion = Quat 0 0 0 1,
                         sleepState = AWAKE, shapes = [cannonShape], mass = BLOCK_MASS,
                         linearDamping = 0.01 \<rparr>,
           obj_id = cfg_id blockConf,
           isKing = Some (truthy (cfg_isKing blockConf)),
           initialY = cfg_y blockConf,
           isFallen = False,
           projectileType = None, lifeSpan = None, creationTime = None, hasSplit = None,
           isSubmunition = None, collideListening = False \<rparr>)"

section \<open>The game state\<close>

text \<open>
  \<open>mounted\<close> stands for the world, scene, renderer and camera refs being set: \<^verbatim>\<open>init\<close>
  sets them together. The bodies of the world are the bodies of the two object lists; the
  renderer, the camera and the particle bursts of explosions are not part of the model.
\<close>

record game =
  mounted :: bool
  physicsObjects :: "PhysicsObject list"
  projectiles :: "PhysicsObject list"

definition createStructure :: "LevelConfiguration \<Rightarrow> game \<Rightarrow> game" where
  "createStructure levelConfig g =
     (if \<not> mounted g then g
      else g\<lparr>physicsObjects := map createBlockVisualAndPhysics (structure levelConfig)\<rparr>)"

definition init :: "LevelConfiguration \<Rightarrow> game" where
  "init levelConfig =
     createStructure levelConfig \<lparr> mounted = True, physicsObjects = [], projectiles = [] \<rparr>"

definition resetLevel :: "LevelConfiguration \<Rightarrow> game \<Rightarrow> game" where
  "resetLevel levelConfig g =
     (if \<not> mounted g then g else createStructure levelConfig (g\<lparr>projectiles := []\<rparr>))"

definition getGoldenBlockPosition :: "game \<Rightarrow> vec3 option" where
  "getGoldenBlockPosition g =
     (case find (\<lambda>obj. truthy (isKing obj) \<and> \<not> isFallen obj \<and> body obj \<noteq> None) (physicsObjects g) of
        None \<Rightarrow> None
      | Some goldenBlock \<Rightarrow>
          (case body goldenBlock of None \<Rightarrow> None | Some b \<Rightarrow> Some (position b)))"

section \<open>Explosions\<close>

text \<open>
  The second half of \<^verbatim>\<open>handleExplosion\<close>: the loop over \<^verbatim>\<open>physicsObjectsRef.current\<close>.
  \<open>explosionImpulse\<close> is the vector handed to \<^verbatim>\<open>applyImpulse\<close> for one body, when
  there is one.
\<close>

definition explosionImpulse :: "vec3 \<Rightarrow> real \<Rightarrow> real \<Rightarrow> Body \<Rightarrow> vec3 option" where
  "explosionImpulse pos explosionRadius explosionStrength b =
     (let distVec = vsub (position b) pos;
          distance = vlength distVec
      in if distance < explosionRadius
         then (let strengthFactor = max 0 (1 - distance / explosionRadius);
                   impulseMagnitude = explosionStrength * strengthFactor
               in Some (vscale impulseMagnitude (normalize distVec)))
         else None)"

definition explodeObject :: "vec3 \<Rightarrow> real \<Rightarrow> real \<Rightarrow> PhysicsObject \<Rightarrow> PhysicsObject" where
  "explodeObject pos explosionRadius explosionStrength obj =
     (case body obj of
        None \<Rightarrow> obj
      | Some b \<Rightarrow>
          (case explosionImpulse pos explosionRadius explosionStrength b of
             None \<Rightarrow> obj
           | Some impulse \<Rightarrow>
               (let b1 = applyImpulse impulse b;
                    b2 = (if sleepState b1 = SLEEPING then wakeUp b1 else b1)
                in obj\<lparr>body := Some b2\<rparr>)))"

definition handleExplosion :: "vec3 \<Rightarrow> real \<Rightarrow> real \<Rightarrow> game \<Rightarrow> game" where
  "handleExplosion pos explosionRadius explosionStrength g =
     (if \<not> mounted g then g
      else g\<lparr>physicsObjects :=
               map (explodeObject pos explosionRadius explosionStrength) (physicsObjects g)\<rparr>)"

section \<open>One frame of \<^verbatim>\<open>animate\<close>\<close>

subsection \<open>The world step\<close>

text \<open>
  \<^verbatim>\<open>worldRef.current.step(1 / 60, deltaTime, 3)\<close> is the physics library's. A frame
  carries what the step did, for any step at all: the body of structure object \<open>i\<close> after
  the step as a function \<open>stepBlock i\<close> of its body before, the same for projectile \<open>i\<close>,
  and the \<^verbatim>\<open>collide\<close> events the step dispatched, each with the index of the projectile
  whose listener receives it; the listeners run on the bodies as the step leaves them.
  The frame also carries \<^verbatim>\<open>performance.now()\<close> and the
  values of \<^verbatim>\<open>Math.random()\<close> drawn for submunition \<open>j\<close> of projectile \<open>i\<close>.
\<close>

datatype other_body = BlockBody nat | OtherBody

datatype collide_event = NoContact | Contact other_body real

record frame =
  currentTime :: real
  stepBlock :: "nat \<Rightarrow> Body \<Rightarrow> Body"
  stepProjectile :: "nat \<Rightarrow> Body \<Rightarrow> Body"
  collisions :: "(nat \<times> collide_event) list"
  random3 :: "nat \<Rightarrow> nat \<Rightarrow> vec3"

definition stepBodies :: "(nat \<Rightarrow> Body \<Rightarrow> Body) \<Rightarrow> PhysicsObject list \<Rightarrow> PhysicsObject list" where
  "stepBodies st objs =
     map (\<lambda>(i, obj). obj\<lparr>body := map_option (st i) (body obj)\<rparr>) (zip [0..<length objs] objs)"

text \<open>
  \<^verbatim>\<open>onCollideExplosive\<close>, the listener \<^verbatim>\<open>launchProjectile\<close> registers on the body of
  an explosive projectile, for the projectile at index \<open>i\<close>. \<open>Contact other v\<close> is an event
  with a contact whose other body is \<open>other\<close> and whose impact velocity along the normal
  is \<open>v\<close>; \<open>NoContact\<close> is an event without contact data.
\<close>

definition onCollideExplosive :: "nat \<Rightarrow> collide_event \<Rightarrow> game \<Rightarrow> game" where
  "onCollideExplosive i event g =
     (if i < length (projectiles g) then
        (let projectileObject = projectiles g ! i in
         if \<not> collideListening projectileObject then g
         else if truthy (hasSplit projectileObject)
           then g\<lparr>projectiles := (projectiles g)[i := projectileObject\<lparr>collideListening := False\<rparr>]\<rparr>
         else (case (event, body projectileObject) of
                 (Contact otherBody v, Some bodyRef) \<Rightarrow>
                   (let isBlock = (case otherBody of
                                     BlockBody k \<Rightarrow> k < length (physicsObjects g)
                                                    \<and> body (physicsObjects g ! k) \<noteq> None
                                   | OtherBody \<Rightarrow> False)
                    in if isBlock \<and> \<bar>v\<bar> > 1.0
                       then (let g1 = handleExplosion (position bodyRef) EXPLOSION_RADIUS EXPLOSION_STRENGTH g
                             in g1\<lparr>projectiles :=
                                     (projectiles g1)[i := projectileObject\<lparr>hasSplit := Some True,
                                                                             collideListening := False\<rparr>]\<rparr>)
                       else g)
               | _ \<Rightarrow> g))
      else g)"

fun dispatchCollisions :: "(nat \<times> collide_event) list \<Rightarrow> game \<Rightarrow> game" where
  "dispatchCollisions [] g = g"
| "dispatchCollisions ((i, event) # rest) g = dispatchCollisions rest (onCollideExplosive i event g)"

definition worldStep :: "frame \<Rightarrow> game \<Rightarrow> game" where
  "worldStep f g =
     dispatchCollisions (collisions f)
       (g\<lparr>physicsObjects := stepBodies (stepBlock f) (physicsObjects g),
          projectiles := stepBodies (stepProjectile f) (projectiles g)\<rparr>)"

subsection \<open>Fall detection\<close>

text \<open>The three tests of the loop over the structure objects, named as in the source.\<close>

definition hasDroppedSignificantly :: "PhysicsObject \<Rightarrow> Body \<Rightarrow> bool" where
  "hasDroppedSignificantly obj b = (vy (position b) < initialY obj - BLOCK_SIZE * 0.375)"

definition isSignificantlyTilted :: "Body \<Rightarrow> bool" where
  "isSignificantlyTilted b = (vy (quat_vmult (quaternion b) (Vec3 0 1 0)) < 0.5)"

definition isSphere :: "Body \<Rightarrow> bool" where
  "isSphere b = (case shapes b of [] \<Rightarrow> False | s # rest \<Rightarrow> shape_type s = sphereShapeTypeNumber)"

text \<open>
  The body of the \<^verbatim>\<open>forEach\<close> over the structure objects: the updated object and the
  calls of \<^verbatim>\<open>onBlockFallen\<close> it makes, each as the pair of its two arguments.
\<close>

definition detectFall :: "PhysicsObject \<Rightarrow> PhysicsObject \<times> (string \<times> bool) list" where
  "detectFall obj =
     (case (mesh obj, body obj) of
        (Some m, Some b) \<Rightarrow>
          (let obj1 = obj\<lparr>mesh := Some (m\<lparr>mesh_position := position b,
                                           mesh_quaternion := quaternion b\<rparr>)\<rparr>
           in if \<not> isFallen obj
              then (if hasDroppedSignificantly obj b \<or> (\<not> isSphere b \<and> isSignificantlyTilted b)
                    then (obj1\<lparr>isFallen := True\<rparr>, [(obj_id obj, truthy (isKing obj))])
                    else (obj1, []))
              else (obj1, []))
      | _ \<Rightarrow> (obj, []))"

definition detectFalls :: "PhysicsObject list \<Rightarrow> PhysicsObject list \<times> (string \<times> bool) list" where
  "detectFalls objs = (map (fst \<circ> detectFall) objs, concat (map (snd \<circ> detectFall) objs))"

subsection \<open>The projectile sweep\<close>

text \<open>The decimal text of a natural number, as the template string writes the index.\<close>

fun digits :: "nat \<Rightarrow> string" where
  "digits n = (if n < 10 then [''0123456789'' ! n]
               else digits (n div 10) @ [''0123456789'' ! (n mod 10)])"

declare digits.simps [simp del]

definition expired :: "real \<Rightarrow> PhysicsObject \<Rightarrow> bool" where
  "expired now proj =
     (truthy_num (lifeSpan proj) \<and> truthy_num (creationTime proj)
      \<and> now - the (creationTime proj) > the (lifeSpan proj))"

text \<open>
  One pass of the loop that builds the submunitions of the cluster projectile \<open>proj\<close> with
  body \<open>b\<close>; \<open>r\<close> is the triple of \<^verbatim>\<open>Math.random()\<close> values drawn for the spread direction.
\<close>

definition makeSubmunition :: "real \<Rightarrow> PhysicsObject \<Rightarrow> Body \<Rightarrow> nat \<Rightarrow> vec3 \<Rightarrow> PhysicsObject" where
  "makeSubmunition now proj b i r =
     (let spreadDir = unit (Vec3 (vx r - 0.5) (vy r - 0.5) (vz r - 0.5));
          submunitionBody0 = \<lparr> position = position b, velocity = velocity b,
                                quaternion = Quat 0 0 0 1, sleepState = AWAKE,
                                shapes = [CSphere SUBMUNITION_RADIUS], mass = SUBMUNITION_MASS,
                                linearDamping = 0.2 \<rparr>;
          submunitionBody = applyImpulse (vscale SUBMUNITION_SPREAD_IMPULSE spreadDir) submunitionBody0
      in \<lparr> mesh = Some \<lparr> mesh_position = position b, mesh_quaternion = Quat 0 0 0 1 \<rparr>,
           body = Some submunitionBody,
           obj_id = ''sub_'' @ obj_id proj @ ''_'' @ digits i,
           isKing = None,
           initialY = vy (position submunitionBody),
           isFallen = False,
           projectileType = Some STANDARD,
           lifeSpan = Some SUBMUNITION_LIFESPAN_MS,
           creationTime = Some now,
           hasSplit = None,
           isSubmunition = Some True,
           collideListening = False \<rparr>)"

text \<open>The \<open>shouldRemove\<close> chain at the end of the loop body.\<close>

definition shouldRemove :: "bool \<Rightarrow> PhysicsObject \<Rightarrow> Body \<Rightarrow> bool" where
  "shouldRemove isExpired proj b =
     (if vy (position b) < - 10 then True
      else if truthy (hasSplit proj) then True
      else if isExpired \<and> truthy (isSubmunition proj) then True
      else if sleepState b = SLEEPING \<and> lengthSquared (velocity b) < 0.01
        then (projectileType proj = None \<or> truthy (isSubmunition proj))
      else False)"

text \<open>
  The body of the \<^verbatim>\<open>forEach\<close> over the projectiles, for the projectile \<open>proj\<close> at index
  \<open>i\<close>: the projectile as the pass leaves it, whether the pass pushed it on
  \<^verbatim>\<open>projectilesToRemove\<close>, the submunitions the pass pushed on \<^verbatim>\<open>newSubmunitions\<close>,
  and the game (an explosion moves the structure objects).
\<close>

definition sweepProjectile ::
  "frame \<Rightarrow> nat \<Rightarrow> PhysicsObject \<Rightarrow> game \<Rightarrow> (PhysicsObject \<times> bool) \<times> PhysicsObject list \<times> game" where
  "sweepProjectile f i proj g =
     (case body proj of
        None \<Rightarrow> ((proj, True), [], g)
      | Some b \<Rightarrow>
          (let proj1 = proj\<lparr>mesh := map_option (\<lambda>m. m\<lparr>mesh_position := position b,
                                                      mesh_quaternion := quaternion b\<rparr>) (mesh proj)\<rparr>;
               isExpired = expired (currentTime f) proj1;
               (proj2, subs, g2) =
                 (if projectileType proj1 = Some EXPLOSIVE \<and> \<not> truthy (hasSplit proj1)
                  then (if isExpired \<or> sleepState b = SLEEPING
                        then (proj1\<lparr>hasSplit := Some True\<rparr>, [],
                              handleExplosion (position b) EXPLOSION_RADIUS EXPLOSION_STRENGTH g)
                        else (proj1, [], g))
                  else if projectileType proj1 = Some CLUSTER \<and> \<not> truthy (hasSplit proj1) \<and> isExpired
                  then (proj1\<lparr>hasSplit := Some True\<rparr>,
                        map (\<lambda>j. makeSubmunition (currentTime f) proj1 b j (random3 f i j))
                            [0..<SUBMUNITION_COUNT],
                        g)
                  else (proj1, [], g))
           in ((proj2, shouldRemove isExpired proj2 b), subs, g2)))"

text \<open>
  The whole loop, from index \<open>i\<close> on: the swept projectiles with their removal marks in
  order, \<^verbatim>\<open>newSubmunitions\<close>, and the game.
\<close>

fun sweepFrom ::
  "frame \<Rightarrow> nat \<Rightarrow> PhysicsObject list \<Rightarrow> game \<Rightarrow> (PhysicsObject \<times> bool) list \<times> PhysicsObject list \<times> game" where
  "sweepFrom f i [] g = ([], [], g)"
| "sweepFrom f i (proj # rest) g =
     (let (marked, subs, g1) = sweepProjectile f i proj g;
          (markedRest, subsRest, g2) = sweepFrom f (Suc i) rest g1
      in (marked # markedRest, subs @ subsRest, g2))"

text \<open>
  After the loop the marked projectiles are cleaned up and filtered out of
  \<^verbatim>\<open>projectilesRef.current\<close> (the filter compares object identities, so it drops exactly
  the marked ones), and only then are the new submunitions pushed.
\<close>

definition sweepProjectiles :: "frame \<Rightarrow> game \<Rightarrow> game" where
  "sweepProjectiles f g =
     (let (marked, newSubmunitions, g1) = sweepFrom f 0 (projectiles g) g;
          kept = map fst (filter (\<lambda>(p, remove). \<not> remove) marked)
      in g1\<lparr>projectiles := (if length newSubmunitions > 0 then kept @ newSubmunitions else kept)\<rparr>)"

subsection \<open>The frame\<close>

definition animate :: "frame \<Rightarrow> game \<Rightarrow> game \<times> (string \<times> bool) list" where
  "animate f g =
     (if \<not> mounted g then (g, [])
      else (let g1 = worldStep f g;
                (objs, fallen) = detectFalls (physicsObjects g1);
                g2 = g1\<lparr>physicsObjects := objs\<rparr>
            in (sweepProjectiles f g2, fallen)))"

section \<open>Launching and sessions\<close>

text \<open>
  \<^verbatim>\<open>launchProjectile\<close>; \<open>camPos\<close> and \<open>camDir\<close> are the camera's position and world
  direction, \<open>now\<close> is \<^verbatim>\<open>performance.now()\<close> and \<open>stamp\<close> is the text of
  \<^verbatim>\<open>${Date.now()}_${Math.random()}\<close> in the identifier.
\<close>

definition launchProjectile ::
  "real \<Rightarrow> ProjectileType \<Rightarrow> vec3 \<Rightarrow> vec3 \<Rightarrow> real \<Rightarrow> string \<Rightarrow> game \<Rightarrow> game" where
  "launchProjectile launchPower ptype camPos camDir now stamp g =
     (if \<not> mounted g then g
      else (let (radius, m, life) =
                  (case ptype of
                     HEAVY \<Rightarrow> (HEAVY_PROJECTILE_RADIUS, HEAVY_PROJECTILE_MASS, None)
                   | EXPLOSIVE \<Rightarrow> (EXPLOSIVE_PROJECTILE_RADIUS, EXPLOSIVE_PROJECTILE_MASS,
                                   Some EXPLOSIVE_PROJECTILE_LIFESPAN_MS)
                   | CLUSTER \<Rightarrow> (CLUSTER_PROJECTILE_RADIUS, CLUSTER_PROJECTILE_MASS,
                                 Some CLUSTER_SPLIT_DELAY_MS)
                   | STANDARD \<Rightarrow> (PROJECTILE_RADIUS, PROJECTILE_MASS, None));
                launchOffset = radius + 0.5 + BLOCK_SIZE / 2;
                p = Vec3 (vx camPos + vx camDir * launchOffset)
                         (vy camPos + vy camDir * launchOffset)
                         (vz camPos + vz camDir * launchOffset);
                finalVelocity = PROJECTILE_VELOCITY_MULTIPLIER * launchPower;
                velocityVec = Vec3 (vx camDir * finalVelocity) (vy camDir * finalVelocity)
                                   (vz camDir * finalVelocity);
                projectileObject =
                  \<lparr> mesh = Some \<lparr> mesh_position = p, mesh_quaternion = Quat 0 0 0 1 \<rparr>,
                    body = Some \<lparr> position = p, velocity = velocityVec, quaternion = Quat 0 0 0 1,
                                  sleepState = AWAKE, shapes = [CSphere radius], mass = m,
                                  linearDamping = 0.1 \<rparr>,
                    obj_id = ''proj_'' @ ProjectileType_string ptype @ ''_'' @ stamp,
                    isKing = None,
                    initialY = vy p,
                    isFallen = False,
                    projectileType = Some ptype,
                    lifeSpan = life,
                    creationTime = Some now,
                    hasSplit = Some False,
                    isSubmunition = None,
                    collideListening = (ptype = EXPLOSIVE) \<rparr>
            in g\<lparr>projectiles := projectiles g @ [projectileObject]\<rparr>))"

text \<open>
  A session is what happens to one loaded level between \<^verbatim>\<open>init\<close> or \<^verbatim>\<open>resetLevel\<close>
  and the next reset: frames and launches in any order. \<open>run\<close> returns the final game and,
  per action, the \<^verbatim>\<open>onBlockFallen\<close> calls it made.
\<close>

datatype action =
    Frame frame
  | Launch real ProjectileType vec3 vec3 real string

fun act :: "action \<Rightarrow> game \<Rightarrow> game \<times> (string \<times> bool) list" where
  "act (Frame f) g = animate f g"
| "act (Launch launchPower ptype camPos camDir now stamp) g =
     (launchProjectile launchPower ptype camPos camDir now stamp g, [])"

fun run :: "action list \<Rightarrow> game \<Rightarrow> game \<times> (string \<times> bool) list list" where
  "run [] g = (g, [])"
| "run (a # as) g =
     (let (g1, ev) = act a g; (g2, evs) = run as g1 in (g2, ev # evs))"

section \<open>Notions for the statements\<close>

text \<open>
  The fall condition of the loop over the structure objects, on an object with a mesh and
  a body: the body has dropped, or it is not a sphere and is tilted.
\<close>

definition fallCondition :: "PhysicsObject \<Rightarrow> bool" where
  "fallCondition obj =
     (case (mesh obj, body obj) of
        (Some m, Some b) \<Rightarrow> hasDroppedSignificantly obj b \<or> (\<not> isSphere b \<and> isSignificantlyTilted b)
      | _ \<Rightarrow> False)"

text \<open>
  What a frame can never change of a structure object except by marking it fallen: the
  identifier, the golden flag, the fallen flag and whether there is a body.
\<close>

definition blockKey :: "PhysicsObject \<Rightarrow> string \<times> bool option \<times> bool \<times> bool" where
  "blockKey obj = (obj_id obj, isKing obj, isFallen obj, body obj = None)"

text \<open>The identifiers of the objects whose fallen flag is not set.\<close>

definition unfallenIds :: "PhysicsObject list \<Rightarrow> string set" where
  "unfallenIds objs = set (map obj_id (filter (\<lambda>obj. \<not> isFallen obj) objs))"

text \<open>
  \<open>laterOf obj obj'\<close>: \<open>obj'\<close> is \<open>obj\<close> at a later time, with the fallen flag kept once set.
\<close>

definition laterOf :: "PhysicsObject \<Rightarrow> PhysicsObject \<Rightarrow> bool" where
  "laterOf obj obj' =
     (obj_id obj' = obj_id obj \<and> isKing obj' = isKing obj
      \<and> (isFallen obj \<longrightarrow> isFallen obj') \<and> (body obj' = None) = (body obj = None))"

text \<open>The golden objects whose fallen flag is not set.\<close>

definition goldenLeft :: "PhysicsObject list \<Rightarrow> PhysicsObject list" where
  "goldenLeft objs = filter (\<lambda>obj. truthy (isKing obj) \<and> \<not> isFallen obj) objs"

section \<open>Sample data\<close>

text \<open>A small level, bodies and frames, used to run the definitions on concrete inputs.\<close>

definition supportCube :: BlockConfig where
  "supportCube = \<lparr>cfg_id = ''base'', cfg_x = 0, cfg_y = 0.5, cfg_z = 0, cfg_shape = Some Cube,
                   cfg_isKing = None, cfg_color = None\<rparr>"

definition goldenCube :: BlockConfig where
  "goldenCube = \<lparr>cfg_id = ''king'', cfg_x = 0, cfg_y = 1.5, cfg_z = 0, cfg_shape = None,
                  cfg_isKing = Some True, cfg_color = None\<rparr>"

definition ball :: BlockConfig where
  "ball = \<lparr>cfg_id = ''ball'', cfg_x = 2, cfg_y = 0.5, cfg_z = 0, cfg_shape = Some Sphere,
            cfg_isKing = None, cfg_color = None\<rparr>"

definition sampleLevel :: LevelConfiguration where
  "sampleLevel = \<lparr>levelName = ''sample'', structure = [supportCube, goldenCube, ball]\<rparr>"

definition plainLevel :: LevelConfiguration where
  "plainLevel = \<lparr>levelName = ''plain'', structure = [supportCube, ball]\<rparr>"

text \<open>An object whose body has been turned by 90 degrees about the x axis.\<close>

definition tilted90 :: "PhysicsObject \<Rightarrow> PhysicsObject" where
  "tilted90 obj =
     obj\<lparr>body := map_option (\<lambda>b. b\<lparr>quaternion := Quat (sqrt 2 / 2) 0 0 (sqrt 2 / 2)\<rparr>) (body obj)\<rparr>"

text \<open>
  A frame at time \<open>t\<close> whose world step moves nothing, and one whose world step leaves
  the second structure object tilted by about 74 degrees.
\<close>

definition stillFrame :: "real \<Rightarrow> frame" where
  "stillFrame t = \<lparr>currentTime = t, stepBlock = (\<lambda>i b. b), stepProjectile = (\<lambda>i b. b),
                    collisions = [], random3 = (\<lambda>i j. Vec3 0.5 0.5 0.5)\<rparr>"

definition toppleFrame :: "real \<Rightarrow> frame" where
  "toppleFrame t = (stillFrame t)\<lparr>stepBlock :=
      (\<lambda>i b. if i = 1 then b\<lparr>quaternion := Quat (3 / 5) 0 0 (4 / 5)\<rparr> else b)\<rparr>"

text \<open>A frame whose world step lowers every structure body by half a unit.\<close>

definition dropFrame :: "real \<Rightarrow> frame" where
  "dropFrame t = (stillFrame t)\<lparr>stepBlock :=
      (\<lambda>i b. b\<lparr>position := Vec3 (vx (position b)) (vy (position b) - 0.5) (vz (position b))\<rparr>)\<rparr>"

text \<open>
  A level without blocks, and games in which one projectile has been launched at time 100
  from a camera at \<open>(0, 1, 5)\<close> looking along the negative z axis.
\<close>

definition emptyLevel :: LevelConfiguration where
  "emptyLevel = \<lparr>levelName = ''empty'', structure = []\<rparr>"

definition clusterGame :: game where
  "clusterGame = launchProjectile 0.5 CLUSTER (Vec3 0 1 5) (Vec3 0 0 (- 1)) 100 ''17_0.5''
                   (init emptyLevel)"

definition heavyGame :: game where
  "heavyGame = launchProjectile 0.5 HEAVY (Vec3 0 1 5) (Vec3 0 0 (- 1)) 100 ''17_0.5''
                 (init emptyLevel)"

text \<open>
  A frame whose world step leaves every projectile asleep and motionless on the ground,
  and one whose world step leaves every projectile below the floor threshold.
\<close>

definition restFrame :: "real \<Rightarrow> frame" where
  "restFrame t = (stillFrame t)\<lparr>stepProjectile :=
      (\<lambda>i b. b\<lparr>position := Vec3 0 0.35 0, velocity := Vec3 0 0 0, sleepState := SLEEPING\<rparr>)\<rparr>"

definition fallFrame :: "real \<Rightarrow> frame" where
  "fallFrame t = (stillFrame t)\<lparr>stepProjectile :=
      (\<lambda>i b. b\<lparr>position := Vec3 0 (- 11) 0\<rparr>)\<rparr>"

definition standardGame :: game where
  "standardGame = launchProjectile 0.5 STANDARD (Vec3 0 1 5) (Vec3 0 0 (- 1)) 100 ''17_0.5''
                    (init sampleLevel)"

text \<open>The golden cube of the sample level with its body asleep.\<close>

definition sleepingKing :: PhysicsObject where
  "sleepingKing = (createBlockVisualAndPhysics goldenCube)
      \<lparr>body := map_option (\<lambda>b. b\<lparr>sleepState := SLEEPING\<rparr>)
                 (body (createBlockVisualAndPhysics goldenCube))\<rparr>"

section \<open>The power curve\<close>

lemma js_rem_one: "0 \<le> r \<Longrightarrow> js_rem r 1 = frac r"
  by (simp add: js_rem_def trunc_def frac_def)

lemma displayPower_frac:
  "0 < e \<Longrightarrow> displayPower e = (if frac (e / 1500) = 0 then 1 else frac (e / 1500))"
  by (simp add: displayPower_def MAX_CHARGE_DURATION_MS_def MAX_LAUNCH_POWER_def js_rem_one Let_def)

lemma frac_half: "frac (1 / 2 :: real) = 1 / 2"
  by (simp add: frac_def)

lemma frac_three_halves: "frac (3 / 2 :: real) = 1 / 2"
proof -
  have "\<lfloor>3 / 2 :: real\<rfloor> = 1" by linarith
  then show ?thesis by (simp add: frac_def)
qed

text \<open>
  C4. While a charge is active and \<open>elapsedMs > 0\<close> milliseconds have passed since it
  started, the progress callback gets \<open>(elapsedMs / 1500) mod 1\<close>, with 1 in place of a
  remainder of exactly 0, and on release the completion callback gets the maximum of that
  value and 0.1. 750 ms give 0.5, 1500 ms give 1 (not 0), 2250 ms give 0.5; a hold of at
  most 150 ms is launched with 0.1, and the launch power is never below 0.1.
\<close>

theorem C4_charge_power:
  assumes "0 < elapsedMs" and "isChargingActive cs" and "now - chargeStartTime cs = elapsedMs"
  shows "snd (chargeUpdateLoop now cs) =
           [ChargeProgress (if frac (elapsedMs / 1500) = 0 then 1 else frac (elapsedMs / 1500))]
       \<and> snd (handlePointerUpGlobal now cs) =
           [ChargeComplete (max 0.1 (if frac (elapsedMs / 1500) = 0 then 1
                                     else frac (elapsedMs / 1500)))]
       \<and> displayPower 750 = 0.5 \<and> displayPower 1500 = 1 \<and> displayPower 2250 = 0.5
       \<and> finalLaunchPower (min elapsedMs 150) = 0.1
       \<and> 0.1 \<le> finalLaunchPower elapsedMs"
proof -
  have a: "snd (chargeUpdateLoop now cs) =
           [ChargeProgress (if frac (elapsedMs / 1500) = 0 then 1 else frac (elapsedMs / 1500))]"
    using assms by (simp add: chargeUpdateLoop_def displayPower_frac)
  have b: "snd (handlePointerUpGlobal now cs) =
           [ChargeComplete (max 0.1 (if frac (elapsedMs / 1500) = 0 then 1
                                     else frac (elapsedMs / 1500)))]"
    using assms
    by (simp add: handlePointerUpGlobal_def finalLaunchPower_def MIN_LAUNCH_POWER_def
        displayPower_frac)
  have c: "displayPower 750 = 0.5" by (simp add: displayPower_frac frac_half)
  have d: "displayPower 1500 = 1" by (simp add: displayPower_frac)
  have e: "displayPower 2250 = 0.5" by (simp add: displayPower_frac frac_three_halves)
  have f: "finalLaunchPower (min elapsedMs 150) = 0.1"
  proof -
    define t where "t = min elapsedMs 150"
    have t: "0 < t" "t \<le> 150" using assms by (simp_all add: t_def)
    then have q: "t / 1500 < 1" "0 < t / 1500" "t / 1500 \<le> 0.1" by simp_all
    then have "frac (t / 1500) = t / 1500" by (simp add: frac_eq)
    then have "finalLaunchPower t = 0.1" using q t
      by (simp add: finalLaunchPower_def displayPower_frac MIN_LAUNCH_POWER_def)
    then show ?thesis by (simp add: t_def)
  qed
  have g: "0.1 \<le> finalLaunchPower elapsedMs"
    by (simp add: finalLaunchPower_def MIN_LAUNCH_POWER_def)
  show ?thesis using a b c d e f g by blast
qed

theorem C4_charge_power_witness:
  "snd (chargeUpdateLoop 850
          \<lparr>isChargingActive = True, chargeStartTime = 100, chargeLoopScheduled = True\<rparr>)
     = [ChargeProgress 0.5]
   \<and> snd (handlePointerUpGlobal 850
          \<lparr>isChargingActive = True, chargeStartTime = 100, chargeLoopScheduled = True\<rparr>)
     = [ChargeComplete 0.5]
   \<and> finalLaunchPower 150 = 0.1"
  using C4_charge_power [of 750
      "\<lparr>isChargingActive = True, chargeStartTime = 100, chargeLoopScheduled = True\<rparr>" 850]
  by (simp add: frac_half)

section \<open>Fall detection of one block\<close>

lemma detectFall_cases:
  assumes "mesh obj = Some m" "body obj = Some b"
  shows "isFallen (fst (detectFall obj)) =
           (isFallen obj \<or> hasDroppedSignificantly obj b
            \<or> (\<not> isSphere b \<and> isSignificantlyTilted b))"
    and "snd (detectFall obj) =
           (if \<not> isFallen obj
               \<and> (hasDroppedSignificantly obj b \<or> (\<not> isSphere b \<and> isSignificantlyTilted b))
            then [(obj_id obj, truthy (isKing obj))] else [])"
  using assms by (auto simp: detectFall_def Let_def)

lemma created_isSphere:
  "shapes b = shapes (the (body (createBlockVisualAndPhysics c))) \<Longrightarrow>
     isSphere b = (cfg_shape c = Some Sphere)"
  by (auto simp: createBlockVisualAndPhysics_def Let_def isSphere_def sphereShapeTypeNumber_def
      split: option.splits BlockShape.splits)

lemma quarter_turn_up: "vy (quat_vmult (Quat (sqrt 2 / 2) 0 0 (sqrt 2 / 2)) (Vec3 0 1 0)) = 0"
  by (simp add: quat_vmult_def)

text \<open>
  C2. For a block that has not fallen yet and is not tilted, with its body at \<open>b\<close>, fall
  detection sets the fallen flag exactly when the body's centre y is strictly below the
  initial centre y minus 0.375. A drop of \<open>0.375 - \<epsilon>\<close> leaves the flag unset, a drop of
  \<open>0.375 + \<epsilon>\<close> sets it, and a drop of exactly 0.375 leaves it unset.
\<close>

theorem C2_drop_threshold:
  assumes "mesh obj = Some m" and "\<not> isFallen obj" and "\<not> isSignificantlyTilted b"
    and "0 < \<epsilon>"
  shows "isFallen (fst (detectFall (obj\<lparr>body := Some b\<rparr>)))
           = (vy (position b) < initialY obj - 0.375)
       \<and> \<not> isFallen (fst (detectFall (obj\<lparr>body := Some (b\<lparr>position :=
               Vec3 (vx (position b)) (initialY obj - (0.375 - \<epsilon>)) (vz (position b))\<rparr>)\<rparr>)))
       \<and> isFallen (fst (detectFall (obj\<lparr>body := Some (b\<lparr>position :=
               Vec3 (vx (position b)) (initialY obj - (0.375 + \<epsilon>)) (vz (position b))\<rparr>)\<rparr>)))
       \<and> \<not> isFallen (fst (detectFall (obj\<lparr>body := Some (b\<lparr>position :=
               Vec3 (vx (position b)) (initialY obj - 0.375) (vz (position b))\<rparr>)\<rparr>)))"
  using assms
  by (simp add: detectFall_cases [where m = m] hasDroppedSignificantly_def
      isSignificantlyTilted_def BLOCK_SIZE_def)

theorem C2_drop_threshold_witness:
  "\<not> isFallen (fst (detectFall ((createBlockVisualAndPhysics goldenCube)
        \<lparr>body := Some ((the (body (createBlockVisualAndPhysics goldenCube)))
                          \<lparr>position := Vec3 0 (1.5 - (0.375 - 0.001)) 0\<rparr>)\<rparr>)))
   \<and> isFallen (fst (detectFall ((createBlockVisualAndPhysics goldenCube)
        \<lparr>body := Some ((the (body (createBlockVisualAndPhysics goldenCube)))
                          \<lparr>position := Vec3 0 (1.5 - (0.375 + 0.001)) 0\<rparr>)\<rparr>)))"
  using C2_drop_threshold [of "createBlockVisualAndPhysics goldenCube"
      "the (mesh (createBlockVisualAndPhysics goldenCube))"
      "the (body (createBlockVisualAndPhysics goldenCube))" "0.001"]
  by (simp add: createBlockVisualAndPhysics_def goldenCube_def Let_def
      isSignificantlyTilted_def quat_vmult_def)

text \<open>
  C3. For a block that has not fallen yet and has not dropped past the threshold, whose
  body carries the collision shape built for the block definition \<open>blockConf\<close>: fall
  detection sets the fallen flag and reports the block exactly when the shape is not a
  sphere and the world-space up component of the body's local up axis is below 0.5. A
  sphere is never marked by tilt; a cube, cylinder, 2x1x1 or 3x1x1 block is. A turn of 90
  degrees about the x axis counts as tilted.
\<close>

theorem C3_tilt_sphere_exempt:
  assumes "mesh obj = Some m" and "body obj = Some b" and "\<not> isFallen obj"
    and "\<not> hasDroppedSignificantly obj b"
    and "shapes b = shapes (the (body (createBlockVisualAndPhysics blockConf)))"
  shows "isFallen (fst (detectFall obj))
           = (cfg_shape blockConf \<noteq> Some Sphere
              \<and> vy (quat_vmult (quaternion b) (Vec3 0 1 0)) < 0.5)
       \<and> snd (detectFall obj)
           = (if cfg_shape blockConf \<noteq> Some Sphere
                 \<and> vy (quat_vmult (quaternion b) (Vec3 0 1 0)) < 0.5
              then [(obj_id obj, truthy (isKing obj))] else [])
       \<and> isSignificantlyTilted (b\<lparr>quaternion := Quat (sqrt 2 / 2) 0 0 (sqrt 2 / 2)\<rparr>)"
  using assms
  by (simp add: detectFall_cases [where m = m and b = b] created_isSphere [of b blockConf]
      isSignificantlyTilted_def quarter_turn_up)

theorem C3_tilt_sphere_exempt_witness:
  "isFallen (fst (detectFall (tilted90 (createBlockVisualAndPhysics goldenCube))))
   \<and> snd (detectFall (tilted90 (createBlockVisualAndPhysics goldenCube))) = [(''king'', True)]
   \<and> \<not> isFallen (fst (detectFall (tilted90 (createBlockVisualAndPhysics ball))))
   \<and> snd (detectFall (tilted90 (createBlockVisualAndPhysics ball))) = []"
  using C3_tilt_sphere_exempt [of "tilted90 (createBlockVisualAndPhysics goldenCube)"
       "the (mesh (createBlockVisualAndPhysics goldenCube))"
       "the (body (tilted90 (createBlockVisualAndPhysics goldenCube)))" goldenCube]
     C3_tilt_sphere_exempt [of "tilted90 (createBlockVisualAndPhysics ball)"
       "the (mesh (createBlockVisualAndPhysics ball))"
       "the (body (tilted90 (createBlockVisualAndPhysics ball)))" ball]
  by (simp add: tilted90_def createBlockVisualAndPhysics_def goldenCube_def ball_def Let_def
      hasDroppedSignificantly_def BLOCK_SIZE_def truthy_def quat_vmult_def)

section \<open>What frames keep of the structure objects\<close>

lemma explodeObject_key: "blockKey (explodeObject p r s obj) = blockKey obj"
  by (simp add: explodeObject_def blockKey_def Let_def split: option.splits)

lemma handleExplosion_keys:
  "map blockKey (physicsObjects (handleExplosion p r s g)) = map blockKey (physicsObjects g)"
  by (simp add: handleExplosion_def explodeObject_key comp_def)

lemma handleExplosion_other:
  "mounted (handleExplosion p r s g) = mounted g"
  "projectiles (handleExplosion p r s g) = projectiles g"
  by (simp_all add: handleExplosion_def)

lemma stepBodies_keys: "map blockKey (stepBodies st objs) = map blockKey objs"
  by (rule nth_equalityI) (simp_all add: stepBodies_def blockKey_def)

lemma onCollideExplosive_keys:
  "map blockKey (physicsObjects (onCollideExplosive i ev g)) = map blockKey (physicsObjects g)"
  "mounted (onCollideExplosive i ev g) = mounted g"
  by (auto simp: onCollideExplosive_def Let_def handleExplosion_keys handleExplosion_other
      split: collide_event.splits option.splits)

lemma dispatchCollisions_keys:
  "map blockKey (physicsObjects (dispatchCollisions cs g)) = map blockKey (physicsObjects g)
   \<and> mounted (dispatchCollisions cs g) = mounted g"
  by (induction cs g rule: dispatchCollisions.induct) (simp_all add: onCollideExplosive_keys)

lemma worldStep_keys:
  "map blockKey (physicsObjects (worldStep f g)) = map blockKey (physicsObjects g)"
  "mounted (worldStep f g) = mounted g"
  by (simp_all add: worldStep_def dispatchCollisions_keys stepBodies_keys)

lemma sweepProjectile_keys:
  "map blockKey (physicsObjects (snd (snd (sweepProjectile f i proj g)))) = map blockKey (physicsObjects g)"
  "mounted (snd (snd (sweepProjectile f i proj g))) = mounted g"
  by (auto simp: sweepProjectile_def Let_def handleExplosion_keys handleExplosion_other
      split: option.splits)

lemma sweepFrom_keys:
  "map blockKey (physicsObjects (snd (snd (sweepFrom f i projs g)))) = map blockKey (physicsObjects g)
   \<and> mounted (snd (snd (sweepFrom f i projs g))) = mounted g"
proof (induction projs arbitrary: i g)
  case Nil
  then show ?case by simp
next
  case (Cons proj rest)
  obtain mk subs g1 where a: "sweepProjectile f i proj g = (mk, subs, g1)"
    by (cases "sweepProjectile f i proj g") auto
  obtain mr sr g2 where b: "sweepFrom f (Suc i) rest g1 = (mr, sr, g2)"
    by (cases "sweepFrom f (Suc i) rest g1") auto
  have "map blockKey (physicsObjects g1) = map blockKey (physicsObjects g)" "mounted g1 = mounted g"
    using sweepProjectile_keys [of f i proj g] a by simp_all
  moreover have "map blockKey (physicsObjects g2) = map blockKey (physicsObjects g1)" "mounted g2 = mounted g1"
    using Cons.IH [of "Suc i" g1] b by simp_all
  ultimately show ?case using a b by simp
qed

lemma sweepProjectiles_keys:
  "map blockKey (physicsObjects (sweepProjectiles f g)) = map blockKey (physicsObjects g)"
  "mounted (sweepProjectiles f g) = mounted g"
  using sweepFrom_keys [of f 0 "projectiles g" g]
  by (auto simp: sweepProjectiles_def Let_def split: prod.splits)

section \<open>Fall events over a session\<close>

lemma detectFall_fst:
  "obj_id (fst (detectFall obj)) = obj_id obj"
  "isKing (fst (detectFall obj)) = isKing obj"
  "body (fst (detectFall obj)) = body obj"
  "isFallen (fst (detectFall obj)) = (isFallen obj \<or> fallCondition obj)"
  by (auto simp: detectFall_def fallCondition_def Let_def split: option.splits)

lemma detectFall_snd:
  "snd (detectFall obj) =
     (if \<not> isFallen obj \<and> fallCondition obj then [(obj_id obj, truthy (isKing obj))] else [])"
  by (auto simp: detectFall_def fallCondition_def Let_def split: option.splits)

lemma detectFalls_events:
  "snd (detectFalls objs) =
     map (\<lambda>obj. (obj_id obj, truthy (isKing obj)))
         (filter (\<lambda>obj. \<not> isFallen obj \<and> fallCondition obj) objs)"
  by (induction objs) (simp_all add: detectFalls_def detectFall_snd)

lemma detectFalls_keys:
  "map blockKey (fst (detectFalls objs)) =
     map (\<lambda>obj. (obj_id obj, isKing obj, isFallen obj \<or> fallCondition obj, body obj = None)) objs"
  by (simp add: detectFalls_def blockKey_def detectFall_fst)

lemma animate_mounted:
  assumes "mounted g"
  shows "snd (animate f g) = snd (detectFalls (physicsObjects (worldStep f g)))"
    and "map blockKey (physicsObjects (fst (animate f g)))
           = map blockKey (fst (detectFalls (physicsObjects (worldStep f g))))"
    and "mounted (fst (animate f g))"
  using assms
  by (simp_all add: animate_def Let_def sweepProjectiles_keys worldStep_keys split: prod.splits)

lemma animate_unmounted: "\<not> mounted g \<Longrightarrow> animate f g = (g, [])"
  by (simp add: animate_def)

lemma launchProjectile_blocks:
  "physicsObjects (launchProjectile lp ty cp cd n s g) = physicsObjects g"
  "mounted (launchProjectile lp ty cp cd n s g) = mounted g"
  by (simp_all add: launchProjectile_def Let_def split: prod.splits)

lemma unfallenIds_alt: "unfallenIds objs = obj_id ` {obj \<in> set objs. \<not> isFallen obj}"
  by (simp add: unfallenIds_def)

lemma unfallenIds_keys:
  "map obj_id (filter (\<lambda>obj. \<not> isFallen obj) objs)
     = map fst (filter (\<lambda>k. \<not> fst (snd (snd k))) (map blockKey objs))"
  by (induction objs) (simp_all add: blockKey_def)

lemma unfallenIds_cong:
  "map blockKey objs' = map blockKey objs \<Longrightarrow> unfallenIds objs' = unfallenIds objs"
  by (simp add: unfallenIds_def unfallenIds_keys)

lemma ids_of_keys: "map obj_id objs = map fst (map blockKey objs)"
  by (simp add: blockKey_def comp_def)

lemma ids_cong:
  "map blockKey objs' = map blockKey objs \<Longrightarrow> map obj_id objs' = map obj_id objs"
  by (simp add: ids_of_keys)

lemma flags_cong:
  assumes "map blockKey objs' = map blockKey objs"
  shows "map isFallen objs' = map isFallen objs"
proof -
  have "map (\<lambda>k. fst (snd (snd k))) (map blockKey objs')
          = map (\<lambda>k. fst (snd (snd k))) (map blockKey objs)"
    using assms by (rule arg_cong)
  then show ?thesis by (simp add: blockKey_def comp_def)
qed

lemma evset:
  "fst ` set (snd (detectFalls objs))
     = obj_id ` {obj \<in> set objs. \<not> isFallen obj \<and> fallCondition obj}"
proof -
  have "fst ` set (snd (detectFalls objs))
          = set (map fst (snd (detectFalls objs)))" by simp
  also have "map fst (snd (detectFalls objs))
              = map obj_id (filter (\<lambda>obj. \<not> isFallen obj \<and> fallCondition obj) objs)"
    by (simp add: detectFalls_events comp_def)
  finally show ?thesis by simp
qed

lemma afterset:
  "unfallenIds (fst (detectFalls objs))
     = obj_id ` {obj \<in> set objs. \<not> isFallen obj \<and> \<not> fallCondition obj}"
proof -
  have "unfallenIds (fst (detectFalls objs))
          = obj_id ` {obj \<in> set (fst (detectFalls objs)). \<not> isFallen obj}"
    by (rule unfallenIds_alt)
  also have "\<dots> = obj_id ` {obj \<in> (fst \<circ> detectFall) ` set objs. \<not> isFallen obj}"
    by (simp add: detectFalls_def)
  also have "\<dots> = obj_id ` {obj \<in> set objs. \<not> isFallen obj \<and> \<not> fallCondition obj}"
  proof (rule set_eqI, rule iffI)
    fix x assume "x \<in> obj_id ` {obj \<in> (fst \<circ> detectFall) ` set objs. \<not> isFallen obj}"
    then obtain o' where o': "o' \<in> set objs" "\<not> isFallen (fst (detectFall o'))"
      "x = obj_id (fst (detectFall o'))" by auto
    then have "\<not> isFallen o'" "\<not> fallCondition o'" "x = obj_id o'"
      by (simp_all add: detectFall_fst)
    with o'(1) show "x \<in> obj_id ` {obj \<in> set objs. \<not> isFallen obj \<and> \<not> fallCondition obj}"
      by blast
  next
    fix x assume "x \<in> obj_id ` {obj \<in> set objs. \<not> isFallen obj \<and> \<not> fallCondition obj}"
    then obtain o' where o': "o' \<in> set objs" "\<not> isFallen o'" "\<not> fallCondition o'" "x = obj_id o'"
      by auto
    then have "\<not> isFallen (fst (detectFall o'))" "x = obj_id (fst (detectFall o'))"
      by (simp_all add: detectFall_fst)
    moreover have "fst (detectFall o') \<in> (fst \<circ> detectFall) ` set objs" using o'(1) by simp
    ultimately show "x \<in> obj_id ` {obj \<in> (fst \<circ> detectFall) ` set objs. \<not> isFallen obj}"
      by blast
  qed
  finally show ?thesis .
qed

lemma detectFalls_step:
  assumes "distinct (map obj_id objs)"
  shows "distinct (map fst (snd (detectFalls objs)))"
    and "fst ` set (snd (detectFalls objs)) \<subseteq> unfallenIds objs"
    and "unfallenIds (fst (detectFalls objs)) \<subseteq> unfallenIds objs - fst ` set (snd (detectFalls objs))"
    and "map obj_id (fst (detectFalls objs)) = map obj_id objs"
proof -
  have inj: "inj_on obj_id (set objs)" using assms by (simp add: distinct_map)
  have ev: "map fst (snd (detectFalls objs))
              = map obj_id (filter (\<lambda>obj. \<not> isFallen obj \<and> fallCondition obj) objs)"
    by (simp add: detectFalls_events comp_def)
  show "distinct (map fst (snd (detectFalls objs)))"
    unfolding ev using assms by (simp add: distinct_map_filter)
  show "fst ` set (snd (detectFalls objs)) \<subseteq> unfallenIds objs"
    unfolding evset unfallenIds_alt by blast
  show "unfallenIds (fst (detectFalls objs)) \<subseteq> unfallenIds objs - fst ` set (snd (detectFalls objs))"
  proof
    fix x assume "x \<in> unfallenIds (fst (detectFalls objs))"
    then obtain o1 where o1: "o1 \<in> set objs" "\<not> isFallen o1" "\<not> fallCondition o1" "x = obj_id o1"
      unfolding afterset by auto
    have "x \<in> unfallenIds objs" unfolding unfallenIds_alt using o1 by blast
    moreover have "x \<notin> fst ` set (snd (detectFalls objs))"
    proof
      assume "x \<in> fst ` set (snd (detectFalls objs))"
      then obtain o2 where o2: "o2 \<in> set objs" "fallCondition o2" "x = obj_id o2"
        unfolding evset by auto
      then have "o1 = o2" using inj o1 by (auto dest: inj_onD)
      then show False using o1 o2 by simp
    qed
    ultimately show "x \<in> unfallenIds objs - fst ` set (snd (detectFalls objs))" by simp
  qed
  show "map obj_id (fst (detectFalls objs)) = map obj_id objs"
    by (simp add: detectFalls_def detectFall_fst)
qed

lemma frame_step:
  assumes "distinct (map obj_id (physicsObjects g))"
  shows "distinct (map fst (snd (animate f g)))
       \<and> fst ` set (snd (animate f g)) \<subseteq> unfallenIds (physicsObjects g)
       \<and> unfallenIds (physicsObjects (fst (animate f g)))
           \<subseteq> unfallenIds (physicsObjects g) - fst ` set (snd (animate f g))
       \<and> map obj_id (physicsObjects (fst (animate f g))) = map obj_id (physicsObjects g)"
proof (cases "mounted g")
  case True
  let ?objs = "physicsObjects (worldStep f g)"
  have k: "map blockKey ?objs = map blockKey (physicsObjects g)" by (rule worldStep_keys)
  have d: "distinct (map obj_id ?objs)" using assms ids_cong [OF k] by simp
  have u: "unfallenIds ?objs = unfallenIds (physicsObjects g)" by (rule unfallenIds_cong [OF k])
  note st = detectFalls_step [OF d]
  note an = animate_mounted [OF True, of f]
  have "distinct (map fst (snd (animate f g)))" using st(1) an(1) by simp
  moreover have "fst ` set (snd (animate f g)) \<subseteq> unfallenIds (physicsObjects g)"
    using st(2) an(1) u by simp
  moreover have "unfallenIds (physicsObjects (fst (animate f g)))
           \<subseteq> unfallenIds (physicsObjects g) - fst ` set (snd (animate f g))"
    using st(3) an(1) u unfallenIds_cong [OF an(2)] by simp
  moreover have "map obj_id (physicsObjects (fst (animate f g))) = map obj_id (physicsObjects g)"
    using st(4) ids_cong [OF an(2)] ids_cong [OF k] by simp
  ultimately show ?thesis by blast
next
  case False
  then show ?thesis by (simp add: animate_unmounted)
qed

lemma act_step:
  assumes "distinct (map obj_id (physicsObjects g))"
  shows "distinct (map fst (snd (act a g)))
       \<and> fst ` set (snd (act a g)) \<subseteq> unfallenIds (physicsObjects g)
       \<and> unfallenIds (physicsObjects (fst (act a g)))
           \<subseteq> unfallenIds (physicsObjects g) - fst ` set (snd (act a g))
       \<and> map obj_id (physicsObjects (fst (act a g))) = map obj_id (physicsObjects g)"
proof (cases a)
  case (Frame f)
  then show ?thesis using frame_step [OF assms, of f] by simp
next
  case (Launch lp ty cp cd n s)
  then show ?thesis by (simp add: launchProjectile_blocks)
qed

lemma run_Cons:
  "run (a # as) g = (fst (run as (fst (act a g))), snd (act a g) # snd (run as (fst (act a g))))"
  by (cases "act a g"; cases "run as (fst (act a g))"; simp)

lemma run_distinct:
  "distinct (map obj_id (physicsObjects g)) \<Longrightarrow>
     distinct (map fst (concat (snd (run as g))))
     \<and> fst ` set (concat (snd (run as g))) \<subseteq> unfallenIds (physicsObjects g)"
proof (induction as arbitrary: g)
  case Nil
  then show ?case by simp
next
  case (Cons a as)
  let ?g1 = "fst (act a g)"
  let ?ev = "snd (act a g)"
  let ?rest = "concat (snd (run as ?g1))"
  note st = act_step [OF Cons.prems, of a]
  have d: "distinct (map obj_id (physicsObjects ?g1))"
    using st Cons.prems by simp
  note ih = Cons.IH [OF d]
  have sub: "fst ` set ?rest \<subseteq> unfallenIds (physicsObjects g) - fst ` set ?ev"
    using ih st by blast
  have c: "concat (snd (run (a # as) g)) = ?ev @ ?rest"
    unfolding run_Cons by simp
  have "distinct (map fst (?ev @ ?rest))"
    using st ih sub by auto
  moreover have "fst ` set (?ev @ ?rest) \<subseteq> unfallenIds (physicsObjects g)"
    using st sub by auto
  ultimately show ?case unfolding c by blast
qed

lemma keys_later:
  assumes "map blockKey ys = map blockKey xs"
  shows "list_all2 laterOf xs ys"
proof -
  have len: "length xs = length ys" using assms by (metis length_map)
  have "laterOf (xs ! i) (ys ! i)" if "i < length xs" for i
  proof -
    have "map blockKey ys ! i = map blockKey xs ! i" using assms by simp
    then have "blockKey (ys ! i) = blockKey (xs ! i)" using that len by simp
    then show ?thesis by (simp add: blockKey_def laterOf_def)
  qed
  then show ?thesis using len by (simp add: list_all2_conv_all_nth)
qed

lemma detectFalls_later: "list_all2 laterOf objs (fst (detectFalls objs))"
  by (simp add: detectFalls_def list_all2_conv_all_nth laterOf_def detectFall_fst)

lemma later_trans:
  "list_all2 laterOf xs ys \<Longrightarrow> list_all2 laterOf ys zs \<Longrightarrow> list_all2 laterOf xs zs"
proof (rule list_all2_trans)
  show "laterOf a b \<Longrightarrow> laterOf b c \<Longrightarrow> laterOf a c" for a b c
    by (simp add: laterOf_def)
qed

lemma later_refl: "list_all2 laterOf xs xs"
  by (simp add: list_all2_conv_all_nth laterOf_def)

lemma frame_later: "list_all2 laterOf (physicsObjects g) (physicsObjects (fst (animate f g)))"
proof (cases "mounted g")
  case True
  have a: "list_all2 laterOf (physicsObjects g) (physicsObjects (worldStep f g))"
    by (rule keys_later [OF worldStep_keys(1)])
  have b: "list_all2 laterOf (physicsObjects (worldStep f g))
             (fst (detectFalls (physicsObjects (worldStep f g))))"
    by (rule detectFalls_later)
  have c: "list_all2 laterOf (fst (detectFalls (physicsObjects (worldStep f g))))
             (physicsObjects (fst (animate f g)))"
    by (rule keys_later [OF animate_mounted(2) [OF True]])
  show ?thesis by (rule later_trans [OF later_trans [OF a b] c])
next
  case False
  then show ?thesis by (simp add: animate_unmounted later_refl)
qed

lemma act_later: "list_all2 laterOf (physicsObjects g) (physicsObjects (fst (act a g)))"
  by (cases a) (simp_all add: frame_later launchProjectile_blocks later_refl)

lemma run_later: "list_all2 laterOf (physicsObjects g) (physicsObjects (fst (run as g)))"
proof (induction as arbitrary: g)
  case Nil
  then show ?case by (simp add: later_refl)
next
  case (Cons a as)
  show ?case unfolding run_Cons
    using later_trans [OF act_later [of g a] Cons.IH [of "fst (act a g)"]] by simp
qed

lemma goldenLeft_later:
  assumes "list_all2 laterOf xs ys" and "goldenLeft xs = []"
  shows "goldenLeft ys = []"
proof -
  have "\<not> (truthy (isKing y) \<and> \<not> isFallen y)" if "y \<in> set ys" for y
  proof -
    from \<open>y \<in> set ys\<close> obtain i where i: "i < length ys" "ys ! i = y"
      unfolding in_set_conv_nth by blast
    have len: "length xs = length ys" using assms(1) by (rule list_all2_lengthD)
    have l: "laterOf (xs ! i) y" using assms(1) i len by (auto simp: list_all2_conv_all_nth)
    have "xs ! i \<in> set xs" using i len by simp
    then have "\<not> (truthy (isKing (xs ! i)) \<and> \<not> isFallen (xs ! i))"
      using assms(2) by (simp add: goldenLeft_def filter_empty_conv)
    then show ?thesis using l by (auto simp: laterOf_def)
  qed
  then show ?thesis by (simp add: goldenLeft_def filter_empty_conv)
qed

lemma frame_no_golden_event:
  assumes "goldenLeft (physicsObjects g) = []"
  shows "filter snd (snd (animate f g)) = []"
proof (cases "mounted g")
  case True
  have "goldenLeft (physicsObjects (worldStep f g)) = []"
    by (rule goldenLeft_later [OF keys_later [OF worldStep_keys(1)] assms])
  then have "\<forall>obj \<in> set (physicsObjects (worldStep f g)). \<not> (truthy (isKing obj) \<and> \<not> isFallen obj)"
    by (simp add: goldenLeft_def filter_empty_conv)
  then show ?thesis
    by (auto simp: animate_mounted(1) [OF True] detectFalls_events filter_empty_conv)
next
  case False
  then show ?thesis by (simp add: animate_unmounted)
qed

lemma act_no_golden_event:
  "goldenLeft (physicsObjects g) = [] \<Longrightarrow> filter snd (snd (act a g)) = []"
  by (cases a) (simp_all add: frame_no_golden_event)

lemma run_no_golden_event:
  "goldenLeft (physicsObjects g) = [] \<Longrightarrow> filter snd (concat (snd (run as g))) = []"
proof (induction as arbitrary: g)
  case Nil
  then show ?case by simp
next
  case (Cons a as)
  have "goldenLeft (physicsObjects (fst (act a g))) = []"
    by (rule goldenLeft_later [OF act_later Cons.prems])
  then have "filter snd (concat (snd (run as (fst (act a g))))) = []" by (rule Cons.IH)
  then show ?case unfolding run_Cons using act_no_golden_event [OF Cons.prems, of a] by simp
qed

lemma golden_position_None:
  "goldenLeft objs = [] \<Longrightarrow> physicsObjects g = objs \<Longrightarrow> getGoldenBlockPosition g = None"
proof -
  assume a: "goldenLeft objs = []" and b: "physicsObjects g = objs"
  have "find (\<lambda>obj. truthy (isKing obj) \<and> \<not> isFallen obj \<and> body obj \<noteq> None) (physicsObjects g) = None"
    using a b by (auto simp: find_None_iff goldenLeft_def filter_empty_conv)
  then show ?thesis by (simp add: getGoldenBlockPosition_def)
qed

lemma upt3: "[0..<3] = [0, 1, 2]" by (simp add: upt_rec)

lemma init_sample:
  "physicsObjects (init sampleLevel) =
     [createBlockVisualAndPhysics supportCube, createBlockVisualAndPhysics goldenCube,
      createBlockVisualAndPhysics ball]"
  "mounted (init sampleLevel)" "projectiles (init sampleLevel) = []"
  by (simp_all add: init_def createStructure_def sampleLevel_def)

lemmas sample_defs = createBlockVisualAndPhysics_def supportCube_def goldenCube_def ball_def
  Let_def fallCondition_def hasDroppedSignificantly_def isSphere_def isSignificantlyTilted_def
  quat_vmult_def BLOCK_SIZE_def sphereShapeTypeNumber_def truthy_def

lemma toppled_sample:
  "animate (toppleFrame t) (init sampleLevel) =
     (\<lparr>mounted = True,
       physicsObjects =
         [createBlockVisualAndPhysics supportCube,
          (createBlockVisualAndPhysics goldenCube)
            \<lparr>mesh := Some \<lparr>mesh_position = Vec3 0 1.5 0, mesh_quaternion = Quat (3 / 5) 0 0 (4 / 5)\<rparr>,
             body := Some ((the (body (createBlockVisualAndPhysics goldenCube)))
                            \<lparr>quaternion := Quat (3 / 5) 0 0 (4 / 5)\<rparr>),
             isFallen := True\<rparr>,
          createBlockVisualAndPhysics ball],
       projectiles = []\<rparr>, [(''king'', True)])"
  by (simp add: animate_def init_def createStructure_def sampleLevel_def worldStep_def
      toppleFrame_def stillFrame_def stepBodies_def upt3 detectFalls_def detectFall_def
      sweepProjectiles_def sample_defs)

lemma toppled_again:
  "snd (animate (toppleFrame t') (fst (animate (toppleFrame t) (init sampleLevel)))) = []"
  unfolding toppled_sample fst_conv
  by (simp add: animate_def worldStep_def
      toppleFrame_def stillFrame_def stepBodies_def upt3 detectFalls_def detectFall_def
      sweepProjectiles_def sample_defs)

lemma sample_session:
  "snd (run [Frame (toppleFrame 16), Frame (toppleFrame 32)] (init sampleLevel))
     = [[(''king'', True)], []]"
  by (simp add: run_Cons toppled_again del: run.simps) (simp add: toppled_sample)

lemma later_ids:
  assumes "list_all2 laterOf xs ys"
  shows "map obj_id ys = map obj_id xs"
    and "map (\<lambda>obj. body obj = None) ys = map (\<lambda>obj. body obj = None) xs"
proof -
  have len: "length xs = length ys" using assms by (rule list_all2_lengthD)
  have nth: "laterOf (xs ! i) (ys ! i)" if "i < length xs" for i
    using assms that by (simp add: list_all2_conv_all_nth)
  show "map obj_id ys = map obj_id xs"
    by (rule nth_equalityI) (use len nth in \<open>simp_all add: laterOf_def\<close>)
  show "map (\<lambda>obj. body obj = None) ys = map (\<lambda>obj. body obj = None) xs"
    by (rule nth_equalityI) (use len nth in \<open>simp_all add: laterOf_def\<close>)
qed

lemma detectFalls_flags:
  "map isFallen (fst (detectFalls objs)) = map (\<lambda>obj. isFallen obj \<or> fallCondition obj) objs"
  by (simp add: detectFalls_def detectFall_fst)

text \<open>
  C1. In a mounted game whose structure objects have pairwise different identifiers: a
  frame calls the block-fallen callback, with the identifier and the golden flag, for
  exactly the objects that were not marked fallen before and for which the fall condition
  holds on the body the world step left; the world step itself changes no fallen flag; after
  the frame the flag of an object is set when it was set before or the condition held.
  Over any session of frames and launches no identifier is reported twice, and a flag that
  is set stays set.
\<close>

theorem C1_fallen_once:
  assumes "mounted g" and "distinct (map obj_id (physicsObjects g))"
  shows "snd (animate f g)
           = map (\<lambda>obj. (obj_id obj, truthy (isKing obj)))
                 (filter (\<lambda>obj. \<not> isFallen obj \<and> fallCondition obj)
                         (physicsObjects (worldStep f g)))
       \<and> map isFallen (physicsObjects (worldStep f g)) = map isFallen (physicsObjects g)
       \<and> map isFallen (physicsObjects (fst (animate f g)))
           = map (\<lambda>obj. isFallen obj \<or> fallCondition obj) (physicsObjects (worldStep f g))
       \<and> distinct (map fst (concat (snd (run as g))))
       \<and> list_all2 (\<lambda>obj obj'. obj_id obj' = obj_id obj \<and> (isFallen obj \<longrightarrow> isFallen obj'))
            (physicsObjects g) (physicsObjects (fst (run as g)))"
proof -
  have a: "snd (animate f g)
           = map (\<lambda>obj. (obj_id obj, truthy (isKing obj)))
                 (filter (\<lambda>obj. \<not> isFallen obj \<and> fallCondition obj)
                         (physicsObjects (worldStep f g)))"
    by (simp add: animate_mounted(1) [OF assms(1)] detectFalls_events)
  have b: "map isFallen (physicsObjects (worldStep f g)) = map isFallen (physicsObjects g)"
    by (rule flags_cong [OF worldStep_keys(1)])
  have c: "map isFallen (physicsObjects (fst (animate f g)))
           = map (\<lambda>obj. isFallen obj \<or> fallCondition obj) (physicsObjects (worldStep f g))"
    using flags_cong [OF animate_mounted(2) [OF assms(1), of f]] by (simp add: detectFalls_flags)
  have d: "distinct (map fst (concat (snd (run as g))))"
    using run_distinct [OF assms(2), of as] by simp
  have e: "list_all2 (\<lambda>obj obj'. obj_id obj' = obj_id obj \<and> (isFallen obj \<longrightarrow> isFallen obj'))
            (physicsObjects g) (physicsObjects (fst (run as g)))"
    by (rule list_all2_mono [OF run_later]) (simp add: laterOf_def)
  show ?thesis using a b c d e by blast
qed

theorem C1_fallen_once_witness:
  "snd (run [Frame (toppleFrame 16), Frame (toppleFrame 32)] (init sampleLevel))
     = [[(''king'', True)], []]
   \<and> distinct (map fst (concat (snd (run [Frame (toppleFrame 16), Frame (toppleFrame 32)]
                                         (init sampleLevel)))))
   \<and> map isFallen (physicsObjects (fst (animate (toppleFrame 16) (init sampleLevel))))
       = [False, True, False]"
proof -
  have m: "mounted (init sampleLevel)" by (rule init_sample)
  have d: "distinct (map obj_id (physicsObjects (init sampleLevel)))"
    by (simp add: init_sample createBlockVisualAndPhysics_def supportCube_def goldenCube_def
        ball_def Let_def)
  from C1_fallen_once [OF m d, of "toppleFrame 16" "[Frame (toppleFrame 16), Frame (toppleFrame 32)]"]
  have "distinct (map fst (concat (snd (run [Frame (toppleFrame 16), Frame (toppleFrame 32)]
                                         (init sampleLevel)))))"
    by blast
  moreover have "map isFallen (physicsObjects (fst (animate (toppleFrame 16) (init sampleLevel))))
       = [False, True, False]"
    by (simp add: toppled_sample createBlockVisualAndPhysics_def Let_def)
  ultimately show ?thesis using sample_session by blast
qed

section \<open>The golden block\<close>

lemma created_goldenLeft:
  assumes "filter (\<lambda>c. truthy (cfg_isKing c)) cs = []"
  shows "goldenLeft (map createBlockVisualAndPhysics cs) = []"
proof -
  have "\<not> truthy (isKing (createBlockVisualAndPhysics c))" if "c \<in> set cs" for c
    using assms that
    by (auto simp: filter_empty_conv createBlockVisualAndPhysics_def Let_def truthy_def)
  then show ?thesis by (auto simp: goldenLeft_def filter_empty_conv)
qed

lemma no_golden_session:
  assumes "goldenLeft (physicsObjects g) = []"
  shows "getGoldenBlockPosition (fst (run as g)) = None
       \<and> filter snd (concat (snd (run as g))) = []"
proof -
  have "goldenLeft (physicsObjects (fst (run as g))) = []"
    by (rule goldenLeft_later [OF run_later assms])
  then have "getGoldenBlockPosition (fst (run as g)) = None"
    by (rule golden_position_None) simp
  then show ?thesis using run_no_golden_event [OF assms] by simp
qed

text \<open>
  C9. For a level whose structure has no block with a true golden flag, loaded by
  \<^verbatim>\<open>init\<close> or by \<^verbatim>\<open>resetLevel\<close> on a mounted canvas: after any session of frames and
  launches \<^verbatim>\<open>getGoldenBlockPosition\<close> returns nothing, and no block-fallen call of the
  session carries golden = true.
\<close>

theorem C9_no_golden_block:
  assumes "mounted g0" and "filter (\<lambda>c. truthy (cfg_isKing c)) (structure levelConfig) = []"
  shows "getGoldenBlockPosition (fst (run as (init levelConfig))) = None
       \<and> filter snd (concat (snd (run as (init levelConfig)))) = []
       \<and> getGoldenBlockPosition (fst (run as (resetLevel levelConfig g0))) = None
       \<and> filter snd (concat (snd (run as (resetLevel levelConfig g0)))) = []"
proof -
  have c: "goldenLeft (map createBlockVisualAndPhysics (structure levelConfig)) = []"
    by (rule created_goldenLeft [OF assms(2)])
  have "goldenLeft (physicsObjects (init levelConfig)) = []"
    using c by (simp add: init_def createStructure_def)
  moreover have "goldenLeft (physicsObjects (resetLevel levelConfig g0)) = []"
    using c assms(1) by (simp add: resetLevel_def createStructure_def)
  ultimately show ?thesis
    using no_golden_session [of "init levelConfig" as]
      no_golden_session [of "resetLevel levelConfig g0" as] by simp
qed

lemma upt2: "[0..<2] = [0, 1]" by (simp add: upt_rec)

lemma dropped_plain:
  "snd (animate (dropFrame t) (init plainLevel)) = [(''base'', False), (''ball'', False)]"
  by (simp add: animate_def init_def createStructure_def plainLevel_def worldStep_def
      dropFrame_def stillFrame_def stepBodies_def upt2 detectFalls_def detectFall_def
      sweepProjectiles_def sample_defs)

theorem C9_no_golden_block_witness:
  "snd (animate (dropFrame 16) (init plainLevel)) = [(''base'', False), (''ball'', False)]
   \<and> getGoldenBlockPosition (fst (run [Frame (dropFrame 16)] (init plainLevel))) = None
   \<and> filter snd (concat (snd (run [Frame (dropFrame 16)] (init plainLevel)))) = []
   \<and> getGoldenBlockPosition (fst (run [Frame (dropFrame 16)]
        (resetLevel plainLevel (init sampleLevel)))) = None"
proof -
  have m: "mounted (init sampleLevel)" by (rule init_sample)
  have n: "filter (\<lambda>c. truthy (cfg_isKing c)) (structure plainLevel) = []"
    by (simp add: plainLevel_def supportCube_def ball_def truthy_def)
  from C9_no_golden_block [OF m n, of "[Frame (dropFrame 16)]"] dropped_plain [of 16]
  show ?thesis by blast
qed

lemma find_filter_hd:
  "find P xs = (case filter P xs of [] \<Rightarrow> None | x # rest \<Rightarrow> Some x)"
  by (induction xs) simp_all

text \<open>
  C10. \<^verbatim>\<open>getGoldenBlockPosition\<close> returns the body position of the first structure
  object that is golden, not marked fallen and has a body, and nothing when there is no
  such object. Once every golden object is marked fallen, it returns nothing after any
  further frames and launches of the session, although the objects and their bodies are
  all still there.
\<close>

theorem C10_golden_position:
  assumes "filter (\<lambda>obj. truthy (isKing obj) \<and> \<not> isFallen obj) (physicsObjects g) = []"
  shows "getGoldenBlockPosition (fst (run as g)) = None
       \<and> map obj_id (physicsObjects (fst (run as g))) = map obj_id (physicsObjects g)
       \<and> map (\<lambda>obj. body obj = None) (physicsObjects (fst (run as g)))
           = map (\<lambda>obj. body obj = None) (physicsObjects g)
       \<and> getGoldenBlockPosition h
           = (case filter (\<lambda>obj. truthy (isKing obj) \<and> \<not> isFallen obj \<and> body obj \<noteq> None)
                          (physicsObjects h) of
                [] \<Rightarrow> None
              | obj # rest \<Rightarrow> map_option position (body obj))"
proof -
  have gl: "goldenLeft (physicsObjects g) = []" using assms by (simp add: goldenLeft_def)
  have a: "getGoldenBlockPosition (fst (run as g)) = None"
    using no_golden_session [OF gl, of as] by simp
  note b = later_ids [OF run_later [of g as]]
  have c: "getGoldenBlockPosition h
           = (case filter (\<lambda>obj. truthy (isKing obj) \<and> \<not> isFallen obj \<and> body obj \<noteq> None)
                          (physicsObjects h) of
                [] \<Rightarrow> None
              | obj # rest \<Rightarrow> map_option position (body obj))"
    by (simp add: getGoldenBlockPosition_def find_filter_hd split: list.splits option.splits)
  show ?thesis using a b c by blast
qed

theorem C10_golden_position_witness:
  "getGoldenBlockPosition (init sampleLevel) = Some (Vec3 0 1.5 0)
   \<and> getGoldenBlockPosition (fst (animate (toppleFrame 16) (init sampleLevel))) = None
   \<and> getGoldenBlockPosition
        (fst (run [Frame (stillFrame 32), Frame (stillFrame 48)]
                  (fst (animate (toppleFrame 16) (init sampleLevel))))) = None
   \<and> map (\<lambda>obj. body obj = None)
        (physicsObjects (fst (animate (toppleFrame 16) (init sampleLevel))))
       = [False, False, False]"
proof -
  let ?g = "fst (animate (toppleFrame 16) (init sampleLevel))"
  have h: "filter (\<lambda>obj. truthy (isKing obj) \<and> \<not> isFallen obj) (physicsObjects ?g) = []"
    by (simp add: toppled_sample createBlockVisualAndPhysics_def Let_def supportCube_def
        ball_def truthy_def)
  have i: "getGoldenBlockPosition (init sampleLevel) = Some (Vec3 0 1.5 0)"
    by (simp add: getGoldenBlockPosition_def init_sample createBlockVisualAndPhysics_def Let_def
        supportCube_def goldenCube_def truthy_def)
  have b: "map (\<lambda>obj. body obj = None) (physicsObjects ?g) = [False, False, False]"
    by (simp add: toppled_sample createBlockVisualAndPhysics_def Let_def)
  from C10_golden_position [OF h, of "[]"]
  have "getGoldenBlockPosition (fst (run [] ?g)) = None" by blast
  then have a: "getGoldenBlockPosition ?g = None" by simp
  from C10_golden_position [OF h, of "[Frame (stillFrame 32), Frame (stillFrame 48)]"]
  have c: "getGoldenBlockPosition
        (fst (run [Frame (stillFrame 32), Frame (stillFrame 48)] ?g)) = None" by blast
  show ?thesis using i a c b by blast
qed

section \<open>The projectile sweep of a frame\<close>

lemma sweepProjectile_indep:
  "fst (sweepProjectile f i proj g) = fst (sweepProjectile f i proj g')"
  "fst (snd (sweepProjectile f i proj g)) = fst (snd (sweepProjectile f i proj g'))"
  by (cases "body proj"; simp add: sweepProjectile_def Let_def case_prod_beta)+

lemma sweepFrom_marks:
  "fst (sweepFrom f i projs g)
     = map (\<lambda>(k, p). fst (sweepProjectile f k p g')) (enumerate i projs)"
proof (induction projs arbitrary: i g)
  case Nil
  then show ?case by simp
next
  case (Cons proj rest)
  obtain mk subs g1 where a: "sweepProjectile f i proj g = (mk, subs, g1)"
    by (cases "sweepProjectile f i proj g") auto
  obtain mr sr g2 where b: "sweepFrom f (Suc i) rest g1 = (mr, sr, g2)"
    by (cases "sweepFrom f (Suc i) rest g1") auto
  have "mk = fst (sweepProjectile f i proj g')"
    using a sweepProjectile_indep(1) [of f i proj g g'] by simp
  moreover have "mr = map (\<lambda>(k, p). fst (sweepProjectile f k p g')) (enumerate (Suc i) rest)"
    using Cons.IH [of "Suc i" g1] b by simp
  ultimately show ?case using a b by simp
qed

lemma sweepFrom_subs:
  "fst (snd (sweepFrom f i projs g))
     = concat (map (\<lambda>(k, p). fst (snd (sweepProjectile f k p g'))) (enumerate i projs))"
proof (induction projs arbitrary: i g)
  case Nil
  then show ?case by simp
next
  case (Cons proj rest)
  obtain mk subs g1 where a: "sweepProjectile f i proj g = (mk, subs, g1)"
    by (cases "sweepProjectile f i proj g") auto
  obtain mr sr g2 where b: "sweepFrom f (Suc i) rest g1 = (mr, sr, g2)"
    by (cases "sweepFrom f (Suc i) rest g1") auto
  have "subs = fst (snd (sweepProjectile f i proj g'))"
    using a sweepProjectile_indep(2) [of f i proj g g'] by simp
  moreover have "sr = concat (map (\<lambda>(k, p). fst (snd (sweepProjectile f k p g'))) (enumerate (Suc i) rest))"
    using Cons.IH [of "Suc i" g1] b by simp
  ultimately show ?case using a b by simp
qed

lemma sweepProjectiles_projectiles:
  "projectiles (sweepProjectiles f g)
     = map fst (filter (\<lambda>(p, remove). \<not> remove)
                  (map (\<lambda>(k, p). fst (sweepProjectile f k p g')) (enumerate 0 (projectiles g))))
       @ concat (map (\<lambda>(k, p). fst (snd (sweepProjectile f k p g'))) (enumerate 0 (projectiles g)))"
proof -
  obtain marked subs g1 where a: "sweepFrom f 0 (projectiles g) g = (marked, subs, g1)"
    by (cases "sweepFrom f 0 (projectiles g) g") auto
  have m: "marked = map (\<lambda>(k, p). fst (sweepProjectile f k p g')) (enumerate 0 (projectiles g))"
    using sweepFrom_marks [of f 0 "projectiles g" g g'] a by simp
  have s: "subs = concat (map (\<lambda>(k, p). fst (snd (sweepProjectile f k p g'))) (enumerate 0 (projectiles g)))"
    using sweepFrom_subs [of f 0 "projectiles g" g g'] a by simp
  have "projectiles (sweepProjectiles f g) = map fst (filter (\<lambda>(p, remove). \<not> remove) marked) @ subs"
    using a by (simp add: sweepProjectiles_def Let_def)
  then show ?thesis unfolding m s .
qed

lemma animate_projectiles:
  assumes "mounted g"
  shows "projectiles (fst (animate f g))
     = map fst (filter (\<lambda>(p, remove). \<not> remove)
                  (map (\<lambda>(k, p). fst (sweepProjectile f k p g'))
                       (enumerate 0 (projectiles (worldStep f g)))))
       @ concat (map (\<lambda>(k, p). fst (snd (sweepProjectile f k p g')))
                     (enumerate 0 (projectiles (worldStep f g))))"
  using assms
  by (simp add: animate_def Let_def sweepProjectiles_projectiles [where g' = g']
      split: prod.splits)

lemma digits_small: "digits 0 = ''0''" "digits (Suc 0) = ''1''" "digits 2 = ''2''" "digits 3 = ''3''" "digits 4 = ''4''"
  by (simp_all add: digits.simps)

lemma upt5: "[0..<5] = [0, 1, 2, 3, 4]" by (simp add: upt_rec)

lemma upt1: "[0..<1] = [0]" by simp

lemma clusterGame_eq:
  "clusterGame =
     \<lparr>mounted = True, physicsObjects = [],
      projectiles =
        [\<lparr>mesh = Some \<lparr>mesh_position = Vec3 0 1 3.7, mesh_quaternion = Quat 0 0 0 1\<rparr>,
          body = Some \<lparr>position = Vec3 0 1 3.7, velocity = Vec3 0 0 (- 12.5),
                        quaternion = Quat 0 0 0 1, sleepState = AWAKE,
                        shapes = [CSphere 0.3], mass = 15, linearDamping = 0.1\<rparr>,
          obj_id = ''proj_CLUSTER_17_0.5'', isKing = None, initialY = 1, isFallen = False,
          projectileType = Some CLUSTER, lifeSpan = Some 1000, creationTime = Some 100,
          hasSplit = Some False, isSubmunition = None, collideListening = False\<rparr>]\<rparr>"
  by (simp add: clusterGame_def launchProjectile_def init_def createStructure_def emptyLevel_def
      Let_def CLUSTER_PROJECTILE_RADIUS_def CLUSTER_PROJECTILE_MASS_def CLUSTER_SPLIT_DELAY_MS_def
      BLOCK_SIZE_def PROJECTILE_VELOCITY_MULTIPLIER_def)

lemma cluster_split_ids:
  "map obj_id (projectiles (fst (animate (stillFrame 1200) clusterGame)))
     = [''sub_proj_CLUSTER_17_0.5_0'', ''sub_proj_CLUSTER_17_0.5_1'', ''sub_proj_CLUSTER_17_0.5_2'',
        ''sub_proj_CLUSTER_17_0.5_3'', ''sub_proj_CLUSTER_17_0.5_4'']"
  unfolding clusterGame_eq
  by (simp add: animate_def worldStep_def stillFrame_def stepBodies_def upt1 detectFalls_def
      sweepProjectiles_def sweepProjectile_def expired_def truthy_num_def truthy_def
      shouldRemove_def SUBMUNITION_COUNT_def upt5 makeSubmunition_def digits_small Let_def)

lemma vlength_vscale: "vlength (vscale k v) = \<bar>k\<bar> * vlength v"
proof -
  have "vx v * k * (vx v * k) + vy v * k * (vy v * k) + vz v * k * (vz v * k)
          = k\<^sup>2 * (vx v * vx v + vy v * vy v + vz v * vz v)"
    by (simp add: power2_eq_square algebra_simps)
  then show ?thesis
    by (simp add: vlength_def vscale_def real_sqrt_mult)
qed

lemma vlength_nonneg: "0 \<le> vlength v"
  by (simp add: vlength_def)

lemma vlength_unit: "vlength (unit v) = 1"
proof (cases "vlength v > 0")
  case True
  then show ?thesis by (simp add: unit_def Let_def vlength_vscale)
next
  case False
  then show ?thesis by (simp add: unit_def Let_def vlength_def)
qed

lemma sweepProjectile_None:
  "body proj = None \<Longrightarrow> sweepProjectile f i proj g = ((proj, True), [], g)"
  by (simp add: sweepProjectile_def)

lemma sweepProjectile_unmarked:
  assumes "\<not> snd (fst (sweepProjectile f i proj g))"
  shows "\<not> truthy (hasSplit (fst (fst (sweepProjectile f i proj g))))"
proof (cases "body proj")
  case None
  then show ?thesis using assms by (simp add: sweepProjectile_None)
next
  case (Some b)
  then show ?thesis using assms
    by (simp add: sweepProjectile_def Let_def case_prod_beta shouldRemove_def split: if_splits)
qed

lemma sweepProjectile_subs_fresh:
  assumes "s \<in> set (fst (snd (sweepProjectile f i proj g)))"
  shows "hasSplit s = None"
proof (cases "body proj")
  case None
  then show ?thesis using assms by (simp add: sweepProjectile_None)
next
  case (Some b)
  then show ?thesis using assms
    by (auto simp: sweepProjectile_def Let_def case_prod_beta makeSubmunition_def split: if_splits)
qed

lemma no_split_projectile_survives:
  assumes "mounted g"
  shows "list_all (\<lambda>p. \<not> truthy (hasSplit p)) (projectiles (fst (animate f g)))"
proof -
  have "\<not> truthy (hasSplit p)" if "p \<in> set (projectiles (fst (animate f g)))" for p
  proof -
    from that animate_projectiles [OF assms, of f g]
    consider (kept) k q where "p = fst (fst (sweepProjectile f k q g))"
        "\<not> snd (fst (sweepProjectile f k q g))"
      | (sub) k q where "p \<in> set (fst (snd (sweepProjectile f k q g)))"
      by auto (metis fst_conv snd_conv)
    then show ?thesis
    proof cases
      case kept
      then show ?thesis using sweepProjectile_unmarked [of f k q g] by simp
    next
      case sub
      then show ?thesis using sweepProjectile_subs_fresh [of p f k q g] by (simp add: truthy_def)
    qed
  qed
  then show ?thesis by (simp add: list_all_iff)
qed

lemma sweepFrom_indep:
  "fst (sweepFrom f i projs g) = fst (sweepFrom f i projs g')"
  "fst (snd (sweepFrom f i projs g)) = fst (snd (sweepFrom f i projs g'))"
  using sweepFrom_marks [of f i projs g g'] sweepFrom_marks [of f i projs g' g']
    sweepFrom_subs [of f i projs g g'] sweepFrom_subs [of f i projs g' g']
  by simp_all

text \<open>
  C8. After a frame of the mounted game the projectile set is the swept projectiles that
  the loop did not mark for removal, followed by all the submunitions the loop created in
  this frame: the submunitions are appended after the filter, so every submunition
  spawned in a frame is in the projectile set when the frame ends.
\<close>

theorem C8_submunitions_after_sweep:
  assumes "mounted g"
  shows "projectiles (fst (animate f g))
           = map fst (filter (\<lambda>(p, remove). \<not> remove)
                        (fst (sweepFrom f 0 (projectiles (worldStep f g)) g')))
             @ fst (snd (sweepFrom f 0 (projectiles (worldStep f g)) g'))
       \<and> fst (snd (sweepFrom f 0 (projectiles (worldStep f g)) g'))
           = concat (map (\<lambda>(k, p). fst (snd (sweepProjectile f k p g')))
                         (enumerate 0 (projectiles (worldStep f g))))
       \<and> set (fst (snd (sweepFrom f 0 (projectiles (worldStep f g)) g')))
           \<subseteq> set (projectiles (fst (animate f g)))"
proof -
  have a: "projectiles (fst (animate f g))
           = map fst (filter (\<lambda>(p, remove). \<not> remove)
                        (fst (sweepFrom f 0 (projectiles (worldStep f g)) g')))
             @ fst (snd (sweepFrom f 0 (projectiles (worldStep f g)) g'))"
    unfolding animate_projectiles [OF assms, of f g']
      sweepFrom_marks [of f 0 _ g' g'] sweepFrom_subs [of f 0 _ g' g'] ..
  have b: "fst (snd (sweepFrom f 0 (projectiles (worldStep f g)) g'))
           = concat (map (\<lambda>(k, p). fst (snd (sweepProjectile f k p g')))
                         (enumerate 0 (projectiles (worldStep f g))))"
    by (rule sweepFrom_subs)
  have c: "set (fst (snd (sweepFrom f 0 (projectiles (worldStep f g)) g')))
           \<subseteq> set (projectiles (fst (animate f g)))"
    unfolding a by simp
  show ?thesis using a b c by blast
qed

lemma clusterGame_mounted: "mounted clusterGame"
  by (simp add: clusterGame_eq)

theorem C8_submunitions_after_sweep_witness:
  "map obj_id (projectiles (fst (animate (stillFrame 1200) clusterGame)))
     = [''sub_proj_CLUSTER_17_0.5_0'', ''sub_proj_CLUSTER_17_0.5_1'', ''sub_proj_CLUSTER_17_0.5_2'',
        ''sub_proj_CLUSTER_17_0.5_3'', ''sub_proj_CLUSTER_17_0.5_4'']
   \<and> set (fst (snd (sweepFrom (stillFrame 1200) 0
             (projectiles (worldStep (stillFrame 1200) clusterGame)) clusterGame)))
       \<subseteq> set (projectiles (fst (animate (stillFrame 1200) clusterGame)))"
proof -
  from C8_submunitions_after_sweep [OF clusterGame_mounted, of "stillFrame 1200" clusterGame]
  have "set (fst (snd (sweepFrom (stillFrame 1200) 0
             (projectiles (worldStep (stillFrame 1200) clusterGame)) clusterGame)))
       \<subseteq> set (projectiles (fst (animate (stillFrame 1200) clusterGame)))"
    by blast
  then show ?thesis using cluster_split_ids by blast
qed

lemma expired_cluster:
  assumes "lifeSpan proj = Some CLUSTER_SPLIT_DELAY_MS" and "creationTime proj = Some c" and "c \<noteq> 0"
  shows "expired t (proj\<lparr>mesh := m\<rparr>) = (t - c > 1000)"
  using assms by (simp add: expired_def truthy_num_def CLUSTER_SPLIT_DELAY_MS_def)

lemma cluster_sweep:
  assumes "projectileType proj = Some CLUSTER" and "lifeSpan proj = Some CLUSTER_SPLIT_DELAY_MS"
    and "creationTime proj = Some c" and "c \<noteq> 0" and "\<not> truthy (hasSplit proj)"
    and "body proj = Some b"
  shows "fst (snd (sweepProjectile f i proj g))
           = (if currentTime f - c > 1000
              then map (\<lambda>j. makeSubmunition (currentTime f)
                               (proj\<lparr>mesh := map_option (\<lambda>m. m\<lparr>mesh_position := position b,
                                                                   mesh_quaternion := quaternion b\<rparr>)
                                                         (mesh proj)\<rparr>)
                               b j (random3 f i j)) [0..<5]
              else [])"
    and "currentTime f - c > 1000 \<Longrightarrow> snd (fst (sweepProjectile f i proj g))"
    and "currentTime f - c > 1000 \<Longrightarrow> hasSplit (fst (fst (sweepProjectile f i proj g))) = Some True"
    and "currentTime f - c > 1000 \<Longrightarrow> projectileType (fst (fst (sweepProjectile f i proj g))) = Some CLUSTER"
    and "currentTime f - c > 1000 \<Longrightarrow> body (fst (fst (sweepProjectile f i proj g))) = Some b"
  using assms
  by (simp_all add: sweepProjectile_def Let_def expired_cluster shouldRemove_def
      SUBMUNITION_COUNT_def truthy_def)

lemma split_sweep_again:
  assumes "truthy (hasSplit proj)"
  shows "fst (snd (sweepProjectile f i proj g)) = []"
  using assms by (cases "body proj") (simp_all add: sweepProjectile_def Let_def)

lemma submunition_velocity:
  "map_option velocity (body (makeSubmunition t proj b j r))
     = Some (vadd (velocity b)
               (vscale (1 / SUBMUNITION_MASS)
                  (vscale SUBMUNITION_SPREAD_IMPULSE
                     (unit (Vec3 (vx r - 0.5) (vy r - 0.5) (vz r - 0.5))))))"
  by (simp add: makeSubmunition_def Let_def applyImpulse_def SUBMUNITION_MASS_def)

text \<open>
  C6. A cluster projectile as \<^verbatim>\<open>launchProjectile\<close> makes it (split delay 1000 ms, created
  at a time \<open>c\<close> that is not 0, not yet split), with any body, swept in a frame whose time
  is more than 1000 ms after \<open>c\<close>: the pass spawns exactly 5 submunitions, each with the
  parent's velocity plus the velocity of a spread impulse of magnitude 3 in a random unit
  direction; the parent is marked for removal in the same pass and its split flag is set;
  sweeping the split parent again, in any frame, spawns nothing; and after any frame of
  the mounted game no projectile with the split flag set is left in the projectile set.
  Before the delay has expired the pass spawns nothing.
\<close>

theorem C6_cluster_split_once:
  assumes "projectileType proj = Some CLUSTER" and "lifeSpan proj = Some CLUSTER_SPLIT_DELAY_MS"
    and "creationTime proj = Some c" and "c \<noteq> 0" and "\<not> truthy (hasSplit proj)"
    and "body proj = Some b" and "currentTime f - c > 1000" and "mounted g"
  shows "length (fst (snd (sweepProjectile f i proj g))) = 5
       \<and> map (\<lambda>s. map_option velocity (body s)) (fst (snd (sweepProjectile f i proj g)))
           = map (\<lambda>j. Some (vadd (velocity b)
                           (vscale (1 / SUBMUNITION_MASS)
                              (vscale SUBMUNITION_SPREAD_IMPULSE
                                 (unit (Vec3 (vx (random3 f i j) - 0.5) (vy (random3 f i j) - 0.5)
                                             (vz (random3 f i j) - 0.5)))))))
                 [0..<5]
       \<and> vlength (vscale SUBMUNITION_SPREAD_IMPULSE (unit v)) = 3
       \<and> snd (fst (sweepProjectile f i proj g))
       \<and> hasSplit (fst (fst (sweepProjectile f i proj g))) = Some True
       \<and> fst (snd (sweepProjectile f' i' (fst (fst (sweepProjectile f i proj g))) g')) = []
       \<and> list_all (\<lambda>p. \<not> truthy (hasSplit p)) (projectiles (fst (animate f' g)))
       \<and> length (fst (snd (sweepProjectile fe i proj g)))
           = (if currentTime fe - c > 1000 then 5 else 0)"
proof -
  note cs = cluster_sweep [OF assms(1-6)]
  have a: "length (fst (snd (sweepProjectile f i proj g))) = 5"
    using cs(1) [of f i g] assms(7) by simp
  have b: "map (\<lambda>s. map_option velocity (body s)) (fst (snd (sweepProjectile f i proj g)))
           = map (\<lambda>j. Some (vadd (velocity b)
                           (vscale (1 / SUBMUNITION_MASS)
                              (vscale SUBMUNITION_SPREAD_IMPULSE
                                 (unit (Vec3 (vx (random3 f i j) - 0.5) (vy (random3 f i j) - 0.5)
                                             (vz (random3 f i j) - 0.5)))))))
                 [0..<5]"
    using cs(1) [of f i g] assms(7) by (simp add: submunition_velocity comp_def)
  have c: "vlength (vscale SUBMUNITION_SPREAD_IMPULSE (unit v)) = 3"
    by (simp add: vlength_vscale vlength_unit SUBMUNITION_SPREAD_IMPULSE_def)
  have d: "snd (fst (sweepProjectile f i proj g))" by (rule cs(2) [OF assms(7)])
  have e: "hasSplit (fst (fst (sweepProjectile f i proj g))) = Some True"
    by (rule cs(3) [OF assms(7)])
  have e': "fst (snd (sweepProjectile f' i' (fst (fst (sweepProjectile f i proj g))) g')) = []"
    by (rule split_sweep_again) (simp add: e truthy_def)
  have h: "list_all (\<lambda>p. \<not> truthy (hasSplit p)) (projectiles (fst (animate f' g)))"
    by (rule no_split_projectile_survives [OF assms(8)])
  have k: "length (fst (snd (sweepProjectile fe i proj g)))
           = (if currentTime fe - c > 1000 then 5 else 0)"
    using cs(1) [of fe i g] by simp
  show ?thesis using a b c d e e' h k by blast
qed

lemma cluster_split_twice_ids:
  "map obj_id (projectiles (fst (run [Frame (stillFrame 1200), Frame (stillFrame 1216)] clusterGame)))
     = [''sub_proj_CLUSTER_17_0.5_0'', ''sub_proj_CLUSTER_17_0.5_1'', ''sub_proj_CLUSTER_17_0.5_2'',
        ''sub_proj_CLUSTER_17_0.5_3'', ''sub_proj_CLUSTER_17_0.5_4'']"
  unfolding clusterGame_eq
  by (simp add: animate_def worldStep_def stillFrame_def stepBodies_def upt1 upt5 detectFalls_def
      sweepProjectiles_def sweepProjectile_def expired_def truthy_num_def truthy_def
      shouldRemove_def SUBMUNITION_COUNT_def makeSubmunition_def digits_small Let_def
      SUBMUNITION_LIFESPAN_MS_def SUBMUNITION_MASS_def SUBMUNITION_SPREAD_IMPULSE_def
      applyImpulse_def unit_def vlength_def vscale_def vadd_def)

theorem C6_cluster_split_once_witness:
  "length (fst (snd (sweepProjectile (stillFrame 1200) 0 (hd (projectiles clusterGame)) clusterGame))) = 5
   \<and> snd (fst (sweepProjectile (stillFrame 1200) 0 (hd (projectiles clusterGame)) clusterGame))
   \<and> length (fst (snd (sweepProjectile (stillFrame 1000) 0 (hd (projectiles clusterGame)) clusterGame))) = 0
   \<and> map obj_id (projectiles (fst (run [Frame (stillFrame 1200), Frame (stillFrame 1216)] clusterGame)))
     = [''sub_proj_CLUSTER_17_0.5_0'', ''sub_proj_CLUSTER_17_0.5_1'', ''sub_proj_CLUSTER_17_0.5_2'',
        ''sub_proj_CLUSTER_17_0.5_3'', ''sub_proj_CLUSTER_17_0.5_4'']"
proof -
  let ?p = "hd (projectiles clusterGame)"
  have h: "projectileType ?p = Some CLUSTER" "lifeSpan ?p = Some CLUSTER_SPLIT_DELAY_MS"
    "creationTime ?p = Some 100" "(100::real) \<noteq> 0" "\<not> truthy (hasSplit ?p)"
    "body ?p = Some (the (body ?p))" "currentTime (stillFrame 1200) - 100 > 1000"
    by (simp_all add: clusterGame_eq CLUSTER_SPLIT_DELAY_MS_def truthy_def stillFrame_def)
  from C6_cluster_split_once [OF h clusterGame_mounted, where i = 0 and fe = "stillFrame 1000"]
  have "length (fst (snd (sweepProjectile (stillFrame 1200) 0 ?p clusterGame))) = 5
      \<and> snd (fst (sweepProjectile (stillFrame 1200) 0 ?p clusterGame))
      \<and> length (fst (snd (sweepProjectile (stillFrame 1000) 0 ?p clusterGame))) = 0"
    by (simp add: stillFrame_def)
  then show ?thesis using cluster_split_twice_ids by blast
qed

section \<open>Removal of standard and heavy projectiles\<close>

lemma heavyGame_eq:
  "heavyGame =
     \<lparr>mounted = True, physicsObjects = [],
      projectiles =
        [\<lparr>mesh = Some \<lparr>mesh_position = Vec3 0 1 3.65, mesh_quaternion = Quat 0 0 0 1\<rparr>,
          body = Some \<lparr>position = Vec3 0 1 3.65, velocity = Vec3 0 0 (- 12.5),
                        quaternion = Quat 0 0 0 1, sleepState = AWAKE,
                        shapes = [CSphere 0.35], mass = 25, linearDamping = 0.1\<rparr>,
          obj_id = ''proj_HEAVY_17_0.5'', isKing = None, initialY = 1, isFallen = False,
          projectileType = Some HEAVY, lifeSpan = None, creationTime = Some 100,
          hasSplit = Some False, isSubmunition = None, collideListening = False\<rparr>]\<rparr>"
  by (simp add: heavyGame_def launchProjectile_def init_def createStructure_def emptyLevel_def
      Let_def HEAVY_PROJECTILE_RADIUS_def HEAVY_PROJECTILE_MASS_def
      BLOCK_SIZE_def PROJECTILE_VELOCITY_MULTIPLIER_def)

lemma heavy_rested:
  "projectiles (fst (animate (restFrame 5000) heavyGame)) =
        [\<lparr>mesh = Some \<lparr>mesh_position = Vec3 0 0.35 0, mesh_quaternion = Quat 0 0 0 1\<rparr>,
          body = Some \<lparr>position = Vec3 0 0.35 0, velocity = Vec3 0 0 0,
                        quaternion = Quat 0 0 0 1, sleepState = SLEEPING,
                        shapes = [CSphere 0.35], mass = 25, linearDamping = 0.1\<rparr>,
          obj_id = ''proj_HEAVY_17_0.5'', isKing = None, initialY = 1, isFallen = False,
          projectileType = Some HEAVY, lifeSpan = None, creationTime = Some 100,
          hasSplit = Some False, isSubmunition = None, collideListening = False\<rparr>]"
  unfolding heavyGame_eq
  by (simp add: animate_def worldStep_def restFrame_def stillFrame_def stepBodies_def upt1
      detectFalls_def sweepProjectiles_def sweepProjectile_def expired_def truthy_num_def
      truthy_def shouldRemove_def lengthSquared_def Let_def)

text \<open>
  A heavy projectile that the world step leaves asleep with zero velocity at height 0.35
  is still in the projectile set after the frame, asleep and motionless: the sweep does
  not remove a resting heavy projectile.
\<close>

theorem C7_resting_heavy_counterexample:
  "length (projectiles (fst (animate (restFrame 5000) heavyGame))) = 1
   \<and> projectileType (hd (projectiles (fst (animate (restFrame 5000) heavyGame)))) = Some HEAVY
   \<and> map_option sleepState (body (hd (projectiles (fst (animate (restFrame 5000) heavyGame)))))
       = Some SLEEPING
   \<and> map_option (lengthSquared \<circ> velocity)
         (body (hd (projectiles (fst (animate (restFrame 5000) heavyGame))))) = Some 0
   \<and> map_option sleepState (body (hd (projectiles (worldStep (restFrame 5000) heavyGame))))
       = Some SLEEPING
   \<and> map_option (lengthSquared \<circ> velocity)
         (body (hd (projectiles (worldStep (restFrame 5000) heavyGame)))) = Some 0"
  unfolding heavy_rested
  by (simp add: lengthSquared_def heavyGame_eq worldStep_def restFrame_def stillFrame_def
      stepBodies_def upt1)

lemma sweepFrom_nth:
  assumes "i < length ps"
  shows "fst (sweepFrom f 0 ps g) ! i = fst (sweepProjectile f i (ps ! i) g')"
  using assms by (simp add: sweepFrom_marks [of f 0 ps g g'] nth_enumerate_eq)

lemma shouldRemove_floor:
  assumes "body proj = Some b"
    and "vy (position b) < - 10
         \<or> (truthy (isSubmunition proj) \<and> sleepState b = SLEEPING
             \<and> lengthSquared (velocity b) < 0.01)"
  shows "snd (fst (sweepProjectile f i proj g))"
  using assms
  by (auto simp: sweepProjectile_def Let_def case_prod_beta shouldRemove_def)

text \<open>
  C7, as the sweep is written. A standard or heavy projectile with a body is marked for
  removal by the pass of the sweep over it when its y position is below -10, and also
  when it is a submunition that is resting (asleep with squared speed below 0.01). A
  resting projectile that is not a submunition is not promised removal: a heavy one
  stays, as shown above. In a frame of the
  mounted game the pass over the projectile at index \<open>i\<close> is the \<open>i\<close>-th result of the
  loop, and the projectile set after the frame keeps only the results that are not
  marked, followed by the new submunitions.
\<close>

theorem C7_floor_and_submunition_rest_removal:
  assumes "projectileType proj = Some STANDARD \<or> projectileType proj = Some HEAVY"
    and "body proj = Some b"
    and "vy (position b) < - 10
         \<or> (truthy (isSubmunition proj) \<and> sleepState b = SLEEPING
             \<and> lengthSquared (velocity b) < 0.01)"
    and "mounted g" and "i < length (projectiles (worldStep f g))"
    and "projectiles (worldStep f g) ! i = proj"
  shows "snd (fst (sweepProjectile f i proj g'))
       \<and> snd (fst (sweepFrom f 0 (projectiles (worldStep f g)) g') ! i)
       \<and> projectiles (fst (animate f g))
           = map fst (filter (\<lambda>(p, remove). \<not> remove)
                        (fst (sweepFrom f 0 (projectiles (worldStep f g)) g')))
             @ fst (snd (sweepFrom f 0 (projectiles (worldStep f g)) g'))"
proof -
  have a: "snd (fst (sweepProjectile f i proj g'))"
    by (rule shouldRemove_floor [OF assms(2,3)])
  have b: "snd (fst (sweepFrom f 0 (projectiles (worldStep f g)) g') ! i)"
    using sweepFrom_nth [OF assms(5), of f g' g'] a assms(6) by simp
  have c: "projectiles (fst (animate f g))
           = map fst (filter (\<lambda>(p, remove). \<not> remove)
                        (fst (sweepFrom f 0 (projectiles (worldStep f g)) g')))
             @ fst (snd (sweepFrom f 0 (projectiles (worldStep f g)) g'))"
    unfolding animate_projectiles [OF assms(4), of f g']
      sweepFrom_marks [of f 0 _ g' g'] sweepFrom_subs [of f 0 _ g' g'] ..
  show ?thesis using a b c by blast
qed

lemma split_first:
  "hd (projectiles (worldStep (restFrame 1300) (fst (animate (stillFrame 1200) clusterGame)))) =
     \<lparr>mesh = Some \<lparr>mesh_position = Vec3 0 1 3.7, mesh_quaternion = Quat 0 0 0 1\<rparr>,
      body = Some \<lparr>position = Vec3 0 0.35 0, velocity = Vec3 0 0 0,
                    quaternion = Quat 0 0 0 1, sleepState = SLEEPING,
                    shapes = [CSphere 0.15], mass = 2, linearDamping = 0.2\<rparr>,
      obj_id = ''sub_proj_CLUSTER_17_0.5_0'', isKing = None, initialY = 1, isFallen = False,
      projectileType = Some STANDARD, lifeSpan = Some 5000, creationTime = Some 1200,
      hasSplit = None, isSubmunition = Some True, collideListening = False\<rparr>"
  "length (projectiles (worldStep (restFrame 1300) (fst (animate (stillFrame 1200) clusterGame)))) = 5"
  "mounted (fst (animate (stillFrame 1200) clusterGame))"
  unfolding clusterGame_eq
  by (simp_all add: animate_def worldStep_def stillFrame_def restFrame_def stepBodies_def upt1 upt5
      detectFalls_def
      sweepProjectiles_def sweepProjectile_def expired_def truthy_num_def truthy_def
      shouldRemove_def SUBMUNITION_COUNT_def makeSubmunition_def digits_small Let_def
      SUBMUNITION_LIFESPAN_MS_def SUBMUNITION_MASS_def SUBMUNITION_SPREAD_IMPULSE_def
      SUBMUNITION_RADIUS_def
      applyImpulse_def unit_def vlength_def vscale_def vadd_def)

lemma rested_subs_removed:
  "projectiles (fst (run [Frame (stillFrame 1200), Frame (restFrame 1300)] clusterGame)) = []"
  unfolding clusterGame_eq
  by (simp add: animate_def worldStep_def stillFrame_def restFrame_def stepBodies_def upt1 upt5
      detectFalls_def
      sweepProjectiles_def sweepProjectile_def expired_def truthy_num_def truthy_def
      shouldRemove_def SUBMUNITION_COUNT_def makeSubmunition_def digits_small Let_def
      SUBMUNITION_LIFESPAN_MS_def SUBMUNITION_MASS_def SUBMUNITION_SPREAD_IMPULSE_def
      SUBMUNITION_RADIUS_def lengthSquared_def
      applyImpulse_def unit_def vlength_def vscale_def vadd_def)


theorem C7_floor_and_submunition_rest_removal_witness:
  "projectiles (fst (animate (fallFrame 200) heavyGame)) = []
   \<and> snd (fst (sweepProjectile (fallFrame 200) 0
              (projectiles (worldStep (fallFrame 200) heavyGame) ! 0) heavyGame))
   \<and> snd (fst (sweepProjectile (restFrame 1300) 0
              (projectiles (worldStep (restFrame 1300)
                 (fst (animate (stillFrame 1200) clusterGame))) ! 0) clusterGame))
   \<and> projectiles (fst (run [Frame (stillFrame 1200), Frame (restFrame 1300)] clusterGame)) = []"
proof -
  let ?ps = "projectiles (worldStep (fallFrame 200) heavyGame)"
  have ps: "?ps =
        [\<lparr>mesh = Some \<lparr>mesh_position = Vec3 0 1 3.65, mesh_quaternion = Quat 0 0 0 1\<rparr>,
          body = Some \<lparr>position = Vec3 0 (- 11) 0, velocity = Vec3 0 0 (- 12.5),
                        quaternion = Quat 0 0 0 1, sleepState = AWAKE,
                        shapes = [CSphere 0.35], mass = 25, linearDamping = 0.1\<rparr>,
          obj_id = ''proj_HEAVY_17_0.5'', isKing = None, initialY = 1, isFallen = False,
          projectileType = Some HEAVY, lifeSpan = None, creationTime = Some 100,
          hasSplit = Some False, isSubmunition = None, collideListening = False\<rparr>]"
    unfolding heavyGame_eq
    by (simp add: worldStep_def fallFrame_def stillFrame_def stepBodies_def upt1)
  have h: "projectileType (?ps ! 0) = Some STANDARD \<or> projectileType (?ps ! 0) = Some HEAVY"
    "body (?ps ! 0) = Some (the (body (?ps ! 0)))"
    "vy (position (the (body (?ps ! 0)))) < - 10
       \<or> (truthy (isSubmunition (?ps ! 0)) \<and> sleepState (the (body (?ps ! 0))) = SLEEPING
           \<and> lengthSquared (velocity (the (body (?ps ! 0)))) < 0.01)"
    "mounted heavyGame" "0 < length ?ps" "?ps ! 0 = ?ps ! 0"
    unfolding ps by (simp_all add: heavyGame_eq)
  from C7_floor_and_submunition_rest_removal [OF h, of heavyGame]
  have a: "snd (fst (sweepProjectile (fallFrame 200) 0 (?ps ! 0) heavyGame))"
    and b: "snd (fst (sweepFrom (fallFrame 200) 0 ?ps heavyGame) ! 0)"
    and c: "projectiles (fst (animate (fallFrame 200) heavyGame))
           = map fst (filter (\<lambda>(p, remove). \<not> remove)
                        (fst (sweepFrom (fallFrame 200) 0 ?ps heavyGame)))
             @ fst (snd (sweepFrom (fallFrame 200) 0 ?ps heavyGame))"
    by blast+
  have "projectiles (fst (animate (fallFrame 200) heavyGame)) = []"
    unfolding c ps
    by (simp add: sweepProjectile_def fallFrame_def stillFrame_def expired_def truthy_num_def
        truthy_def shouldRemove_def Let_def)
  let ?qs = "projectiles (worldStep (restFrame 1300) (fst (animate (stillFrame 1200) clusterGame)))"
  have "?qs \<noteq> []" using split_first(2) by auto
  then have q0: "?qs ! 0 = hd ?qs" by (rule hd_conv_nth [symmetric])
  have k: "projectileType (?qs ! 0) = Some STANDARD \<or> projectileType (?qs ! 0) = Some HEAVY"
    "body (?qs ! 0) = Some (the (body (?qs ! 0)))"
    "vy (position (the (body (?qs ! 0)))) < - 10
       \<or> (truthy (isSubmunition (?qs ! 0)) \<and> sleepState (the (body (?qs ! 0))) = SLEEPING
           \<and> lengthSquared (velocity (the (body (?qs ! 0)))) < 0.01)"
    "mounted (fst (animate (stillFrame 1200) clusterGame))" "0 < length ?qs" "?qs ! 0 = ?qs ! 0"
    unfolding q0 split_first(1,2)
    by (simp_all add: truthy_def lengthSquared_def split_first(3))
  from C7_floor_and_submunition_rest_removal [OF k, of clusterGame]
  have d: "snd (fst (sweepProjectile (restFrame 1300) 0 (?qs ! 0) clusterGame))"
    by blast
  show ?thesis
    using \<open>projectiles (fst (animate (fallFrame 200) heavyGame)) = []\<close> a d rested_subs_removed
    by blast
qed

section \<open>Explosion impulses\<close>

lemma vlength_zero: "vlength (vsub a a) = 0"
  by (simp add: vlength_def vsub_def)

lemma vlength_axis: "vlength (Vec3 0 a 0) = \<bar>a\<bar>" "vlength (Vec3 0 0 a) = \<bar>a\<bar>"
  by (simp_all add: vlength_def)

lemma impulse_in_range:
  assumes "0 < vlength (vsub (position b) p)" and "vlength (vsub (position b) p) < r"
  shows "explosionImpulse p r s b
           = Some (vscale (s * (1 - vlength (vsub (position b) p) / r))
                     (vscale (1 / vlength (vsub (position b) p)) (vsub (position b) p)))"
proof -
  let ?d = "vlength (vsub (position b) p)"
  have r: "0 < r" using assms by linarith
  then have "?d / r < 1" using assms by simp
  then have "max 0 (1 - ?d / r) = 1 - ?d / r" by simp
  then show ?thesis using assms
    by (simp add: explosionImpulse_def Let_def normalize_def)
qed

lemma impulse_None: "(explosionImpulse p r s b = None) = (r \<le> vlength (vsub (position b) p))"
  by (auto simp: explosionImpulse_def Let_def)

lemma impulse_centre:
  "explosionImpulse (position b) r s b = (if 0 < r then Some (Vec3 0 0 0) else None)"
  by (simp add: explosionImpulse_def Let_def vlength_zero normalize_def vscale_def)

lemma explodeObject_body:
  assumes "body obj = Some b" and "explosionImpulse p r s b = Some imp"
  shows "map_option sleepState (body (explodeObject p r s obj))
           = Some (if sleepState b = SLEEPING then AWAKE else sleepState b)"
    and "map_option velocity (body (explodeObject p r s obj))
           = Some (if mass b > 0 then vadd (velocity b) (vscale (1 / mass b) imp) else velocity b)"
  using assms by (simp_all add: explodeObject_def Let_def applyImpulse_def wakeUp_def)

lemma explodeObject_far:
  "explodeObject p r s (obj\<lparr>body := Some b\<rparr>) = obj\<lparr>body := Some b\<rparr>
   \<or> vlength (vsub (position b) p) < r"
proof (cases "vlength (vsub (position b) p) < r")
  case True
  then show ?thesis by simp
next
  case False
  then have "explosionImpulse p r s b = None" by (simp add: impulse_None)
  then show ?thesis by (simp add: explodeObject_def)
qed

text \<open>
  C5, as the explosion is written. An explosion at \<open>p\<close> with radius \<open>r\<close> and strength \<open>s \<ge> 0\<close> in the mounted
  game runs over the structure objects only: the projectiles are left as they are. A
  structure body at distance \<open>0 < d < r\<close> from \<open>p\<close> receives the impulse
  \<open>s * (1 - d / r)\<close> times the unit vector from \<open>p\<close> to the body, of magnitude
  \<open>s * (1 - d / r)\<close>; it gains that impulse divided by its mass as velocity, and is awake
  afterwards if it was sleeping. A body receives no impulse exactly when \<open>d \<ge> r\<close>, and is
  then unchanged. A body exactly at \<open>p\<close> is handed the zero vector.
\<close>

theorem C5_explosion_impulse_on_blocks:
  assumes "mounted g" and "0 \<le> s" and "body obj = Some b"
    and "0 < vlength (vsub (position b) p)" and "vlength (vsub (position b) p) < r"
  shows "physicsObjects (handleExplosion p r s g) = map (explodeObject p r s) (physicsObjects g)
       \<and> projectiles (handleExplosion p r s g) = projectiles g
       \<and> explosionImpulse p r s b
           = Some (vscale (s * (1 - vlength (vsub (position b) p) / r))
                     (vscale (1 / vlength (vsub (position b) p)) (vsub (position b) p)))
       \<and> vlength (vscale (1 / vlength (vsub (position b) p)) (vsub (position b) p)) = 1
       \<and> vlength (the (explosionImpulse p r s b)) = s * (1 - vlength (vsub (position b) p) / r)
       \<and> map_option sleepState (body (explodeObject p r s obj))
           = Some (if sleepState b = SLEEPING then AWAKE else sleepState b)
       \<and> map_option velocity (body (explodeObject p r s obj))
           = Some (if mass b > 0
                   then vadd (velocity b) (vscale (1 / mass b) (the (explosionImpulse p r s b)))
                   else velocity b)
       \<and> (explosionImpulse p r s b2 = None) = (r \<le> vlength (vsub (position b2) p))
       \<and> (explodeObject p r s (obj2\<lparr>body := Some b2\<rparr>) = obj2\<lparr>body := Some b2\<rparr>
           \<or> vlength (vsub (position b2) p) < r)
       \<and> explosionImpulse (position b2) r s b2 = (if 0 < r then Some (Vec3 0 0 0) else None)"
proof -
  let ?d = "vlength (vsub (position b) p)"
  let ?u = "vscale (1 / ?d) (vsub (position b) p)"
  have a: "physicsObjects (handleExplosion p r s g) = map (explodeObject p r s) (physicsObjects g)"
    and a': "projectiles (handleExplosion p r s g) = projectiles g"
    using assms(1) by (simp_all add: handleExplosion_def)
  note imp = impulse_in_range [OF assms(4,5), of s]
  have u: "vlength ?u = 1" using assms(4) by (simp add: vlength_vscale)
  have "0 < r" using assms(4,5) by linarith
  then have "?d / r < 1" using assms(5) by simp
  then have k: "0 \<le> s * (1 - ?d / r)" using assms(2) by simp
  have m: "vlength (the (explosionImpulse p r s b)) = s * (1 - ?d / r)"
    unfolding imp option.sel vlength_vscale [of _ ?u] u using k by simp
  note eb = explodeObject_body [OF assms(3) imp]
  have v: "map_option velocity (body (explodeObject p r s obj))
           = Some (if mass b > 0
                   then vadd (velocity b) (vscale (1 / mass b) (the (explosionImpulse p r s b)))
                   else velocity b)"
    unfolding eb(2) imp option.sel ..
  show ?thesis
    using a a' imp u m eb(1) v impulse_None [of p r s b2] explodeObject_far [where p = p and r = r and s = s and obj = obj2 and b = b2]
      impulse_centre [of b2 r s]
    by blast
qed

lemma standardGame_projectiles:
  "projectiles standardGame =
        [\<lparr>mesh = Some \<lparr>mesh_position = Vec3 0 1 3.75, mesh_quaternion = Quat 0 0 0 1\<rparr>,
          body = Some \<lparr>position = Vec3 0 1 3.75, velocity = Vec3 0 0 (- 12.5),
                        quaternion = Quat 0 0 0 1, sleepState = AWAKE,
                        shapes = [CSphere 0.25], mass = 10, linearDamping = 0.1\<rparr>,
          obj_id = ''proj_STANDARD_17_0.5'', isKing = None, initialY = 1, isFallen = False,
          projectileType = Some STANDARD, lifeSpan = None, creationTime = Some 100,
          hasSplit = Some False, isSubmunition = None, collideListening = False\<rparr>]"
  by (simp add: standardGame_def launchProjectile_def init_sample
      Let_def PROJECTILE_RADIUS_def PROJECTILE_MASS_def
      BLOCK_SIZE_def PROJECTILE_VELOCITY_MULTIPLIER_def)

text \<open>
  A standard projectile one unit away from an explosion of radius 3.5 keeps its velocity:
  the explosion does not touch the projectiles. And the golden cube of the sample level,
  with an explosion exactly at its centre, is handed the zero vector, not an impulse of
  magnitude 3.6.
\<close>

theorem C5_projectile_untouched_counterexample:
  "vlength (vsub (position (the (body (hd (projectiles standardGame))))) (Vec3 0 1 2.75))
     < EXPLOSION_RADIUS
   \<and> projectiles (handleExplosion (Vec3 0 1 2.75) EXPLOSION_RADIUS EXPLOSION_STRENGTH standardGame)
       = projectiles standardGame
   \<and> map_option velocity
         (body (hd (projectiles
            (handleExplosion (Vec3 0 1 2.75) EXPLOSION_RADIUS EXPLOSION_STRENGTH standardGame))))
       = Some (Vec3 0 0 (- 12.5))
   \<and> vlength (vsub (position (the (body (createBlockVisualAndPhysics goldenCube)))) (Vec3 0 1.5 0))
       = 0
   \<and> explosionImpulse (Vec3 0 1.5 0) EXPLOSION_RADIUS EXPLOSION_STRENGTH
         (the (body (createBlockVisualAndPhysics goldenCube))) = Some (Vec3 0 0 0)"
proof -
  have a: "vlength (vsub (position (the (body (hd (projectiles standardGame))))) (Vec3 0 1 2.75))
     < EXPLOSION_RADIUS"
    by (simp add: standardGame_projectiles vsub_def vlength_axis EXPLOSION_RADIUS_def)
  have b: "projectiles (handleExplosion (Vec3 0 1 2.75) EXPLOSION_RADIUS EXPLOSION_STRENGTH standardGame)
       = projectiles standardGame"
    by (simp add: handleExplosion_def)
  have c: "map_option velocity
         (body (hd (projectiles
            (handleExplosion (Vec3 0 1 2.75) EXPLOSION_RADIUS EXPLOSION_STRENGTH standardGame))))
       = Some (Vec3 0 0 (- 12.5))"
    unfolding b by (simp add: standardGame_projectiles)
  have p: "position (the (body (createBlockVisualAndPhysics goldenCube))) = Vec3 0 1.5 0"
    by (simp add: createBlockVisualAndPhysics_def goldenCube_def Let_def)
  have d: "vlength (vsub (position (the (body (createBlockVisualAndPhysics goldenCube)))) (Vec3 0 1.5 0))
       = 0"
    unfolding p by (rule vlength_zero)
  have e: "explosionImpulse (Vec3 0 1.5 0) EXPLOSION_RADIUS EXPLOSION_STRENGTH
         (the (body (createBlockVisualAndPhysics goldenCube))) = Some (Vec3 0 0 0)"
    using impulse_centre [of "the (body (createBlockVisualAndPhysics goldenCube))"
        EXPLOSION_RADIUS EXPLOSION_STRENGTH]
    unfolding p by (simp add: EXPLOSION_RADIUS_def)
  show ?thesis using a b c d e by blast
qed

theorem C5_explosion_impulse_on_blocks_witness:
  "explosionImpulse (Vec3 0 3.25 0) EXPLOSION_RADIUS EXPLOSION_STRENGTH (the (body sleepingKing))
     = Some (Vec3 0 (- 1.8) 0)
   \<and> vlength (the (explosionImpulse (Vec3 0 3.25 0) EXPLOSION_RADIUS EXPLOSION_STRENGTH
                      (the (body sleepingKing)))) = EXPLOSION_STRENGTH * 0.5
   \<and> map_option sleepState
         (body (explodeObject (Vec3 0 3.25 0) EXPLOSION_RADIUS EXPLOSION_STRENGTH sleepingKing))
       = Some AWAKE
   \<and> map_option velocity
         (body (explodeObject (Vec3 0 3.25 0) EXPLOSION_RADIUS EXPLOSION_STRENGTH sleepingKing))
       = Some (Vec3 0 (- 3.6) 0)
   \<and> projectiles (handleExplosion (Vec3 0 3.25 0) EXPLOSION_RADIUS EXPLOSION_STRENGTH standardGame)
       = projectiles standardGame"
proof -
  let ?b = "the (body sleepingKing)"
  have b: "?b = \<lparr>position = Vec3 0 1.5 0, velocity = Vec3 0 0 0, quaternion = Quat 0 0 0 1,
                  sleepState = SLEEPING, shapes = [CBox (Vec3 0.5 0.5 0.5)], mass = 0.5,
                  linearDamping = 0.01\<rparr>"
    by (simp add: sleepingKing_def createBlockVisualAndPhysics_def goldenCube_def Let_def
        BLOCK_SIZE_def BLOCK_MASS_def)
  have d: "vlength (vsub (position ?b) (Vec3 0 3.25 0)) = 1.75"
    unfolding b by (simp add: vsub_def vlength_axis)
  have h: "mounted standardGame" "0 \<le> EXPLOSION_STRENGTH" "body sleepingKing = Some ?b"
    "0 < vlength (vsub (position ?b) (Vec3 0 3.25 0))"
    "vlength (vsub (position ?b) (Vec3 0 3.25 0)) < EXPLOSION_RADIUS"
    unfolding d
    by (simp_all add: standardGame_def launchProjectile_def init_sample EXPLOSION_STRENGTH_def
        EXPLOSION_RADIUS_def sleepingKing_def createBlockVisualAndPhysics_def Let_def)
  let ?P = "Vec3 0 3.25 0"
  from C5_explosion_impulse_on_blocks [OF h]
  have i: "explosionImpulse ?P EXPLOSION_RADIUS EXPLOSION_STRENGTH ?b
           = Some (vscale (EXPLOSION_STRENGTH * (1 - 1.75 / EXPLOSION_RADIUS))
                     (vscale (1 / 1.75) (vsub (position ?b) ?P)))"
    and m: "vlength (the (explosionImpulse ?P EXPLOSION_RADIUS EXPLOSION_STRENGTH ?b))
           = EXPLOSION_STRENGTH * (1 - 1.75 / EXPLOSION_RADIUS)"
    and sl: "map_option sleepState (body (explodeObject ?P EXPLOSION_RADIUS EXPLOSION_STRENGTH sleepingKing))
           = Some (if sleepState ?b = SLEEPING then AWAKE else sleepState ?b)"
    and v: "map_option velocity (body (explodeObject ?P EXPLOSION_RADIUS EXPLOSION_STRENGTH sleepingKing))
           = Some (if mass ?b > 0
                   then vadd (velocity ?b) (vscale (1 / mass ?b)
                          (the (explosionImpulse ?P EXPLOSION_RADIUS EXPLOSION_STRENGTH ?b)))
                   else velocity ?b)"
    and pr: "projectiles (handleExplosion ?P EXPLOSION_RADIUS EXPLOSION_STRENGTH standardGame)
           = projectiles standardGame"
    unfolding d by blast+
  have i': "explosionImpulse ?P EXPLOSION_RADIUS EXPLOSION_STRENGTH ?b = Some (Vec3 0 (- 1.8) 0)"
    using i by (simp add: b vsub_def vscale_def EXPLOSION_RADIUS_def EXPLOSION_STRENGTH_def)
  have m': "vlength (the (explosionImpulse ?P EXPLOSION_RADIUS EXPLOSION_STRENGTH ?b))
           = EXPLOSION_STRENGTH * 0.5"
    unfolding m by (simp add: EXPLOSION_RADIUS_def)
  have sl': "map_option sleepState
         (body (explodeObject ?P EXPLOSION_RADIUS EXPLOSION_STRENGTH sleepingKing)) = Some AWAKE"
    using sl by (simp add: b)
  have v': "map_option velocity
         (body (explodeObject ?P EXPLOSION_RADIUS EXPLOSION_STRENGTH sleepingKing))
       = Some (Vec3 0 (- 3.6) 0)"
    using v i' by (simp add: b vadd_def vscale_def)
  show ?thesis using i' m' sl' v' pr by blast
qed

end
